theory Spec2Isabelle
  imports Main
begin

section \<open>Exceptions, external calls and traces\<close>

text \<open>
  Every script of \<^verbatim>\<open>testsprite_tests\<close> is one coroutine \<^verbatim>\<open>run_test\<close> that drives
  a browser through the Playwright library and is started by the last line of the module,
  \<^verbatim>\<open>asyncio.run(run_test())\<close>. The browser and the application under test are outside
  the repository, so the result of every awaited library call is a parameter of the model:
  the call returns, or it raises.

  \<open>fault\<close> is what a library call can raise: \<^verbatim>\<open>async_api.TimeoutError\<close> (a subclass of
  \<^verbatim>\<open>async_api.Error\<close>), any other \<^verbatim>\<open>async_api.Error\<close>, the \<^verbatim>\<open>AssertionError\<close>
  of the library's own assertions, or an exception of any other class.
\<close>

datatype fault = PwTimeoutError | PwError | LibAssertionError | OtherFault

text \<open>The clause \<^verbatim>\<open>except async_api.Error\<close> matches the first two.\<close>

fun is_async_api_Error :: "fault \<Rightarrow> bool" where
  "is_async_api_Error PwTimeoutError = True"
| "is_async_api_Error PwError = True"
| "is_async_api_Error LibAssertionError = False"
| "is_async_api_Error OtherFault = False"

text \<open>
  The exceptions a script can end with: the module does not compile, a name is not bound,
  the script's own \<^verbatim>\<open>raise AssertionError("...")\<close>, or a fault of a library call that
  nothing caught.
\<close>

datatype exn = SyntaxError | NameError string | AssertionError string | External fault

text \<open>The library calls the scripts make, with the arguments of the source.\<close>

datatype call =
    PlaywrightStart
  | ChromiumLaunch
  | NewContext
  | SetDefaultTimeout nat
  | NewPage
  | PageGoto string string nat
  | WaitForLoadState string nat
  | FrameWaitForLoadState nat string nat
  | WaitForTimeout nat
  | LocatorClick string nat
  | ToBeVisible string nat
  | AsyncioSleep nat
  | ContextClose
  | BrowserClose
  | PlaywrightStop

text \<open>
  A trace lists the calls a run issued, in order, each with its result
  (\<open>None\<close>: it returned; \<open>Some f\<close>: it raised \<open>f\<close>).
\<close>

type_synonym trace = "(call \<times> fault option) list"

type_synonym outcome = "trace \<times> exn option"

text \<open>
  The environment: the result of each library call. The calls of the statement list are
  indexed by the position of their statement; \<open>frames\<close> is the length of
  \<^verbatim>\<open>page.frames\<close>.
\<close>

record env =
  start_r :: "fault option"
  launch_r :: "fault option"
  new_context_r :: "fault option"
  new_page_r :: "fault option"
  first_goto_r :: "fault option"
  load_state_r :: "fault option"
  frames :: nat
  frame_load_r :: "nat \<Rightarrow> fault option"
  goto_r :: "nat \<Rightarrow> fault option"
  wait_r :: "nat \<Rightarrow> fault option"
  click_r :: "nat \<Rightarrow> fault option"
  visible_r :: "nat \<Rightarrow> fault option"
  sleep_r :: "nat \<Rightarrow> fault option"
  context_close_r :: "fault option"
  browser_close_r :: "fault option"
  stop_r :: "fault option"

section \<open>The statements of a script\<close>

text \<open>
  The thirteen scripts share their first 46 lines and their \<^verbatim>\<open>finally\<close> block; between
  the two each is a straight line of statements of five shapes:

  \<^item> \<open>Goto url wait_until timeout\<close>:
    \<^verbatim>\<open>await page.goto(url, wait_until=..., timeout=...)\<close>;
  \<^item> \<open>Click selector grace timeout\<close>: the three lines
    \<^verbatim>\<open>frame = context.pages[-1]\<close>,
    \<^verbatim>\<open>elem = frame.locator(selector).nth(0)\<close>,
    \<^verbatim>\<open>await page.wait_for_timeout(grace); await elem.click(timeout=timeout)\<close>;
  \<^item> \<open>ExpectVisible selector timeout message\<close>: \<^verbatim>\<open>frame = context.pages[-1]\<close> and
    \<^verbatim>\<open>try: await expect(frame.locator(selector).first).to_be_visible(timeout=timeout)\<close>
    \<^verbatim>\<open>except AssertionError: raise AssertionError(message)\<close>;
  \<^item> \<open>Fence\<close>: a line that holds three backquotes and nothing else;
  \<^item> \<open>Sleep seconds\<close>: \<^verbatim>\<open>await asyncio.sleep(seconds)\<close>.

  Creating a locator and reading \<^verbatim>\<open>context.pages[-1]\<close> call nothing that is awaited; they
  are taken to return.
\<close>

datatype stmt =
    Goto string string nat
  | Click string nat nat
  | ExpectVisible string nat string
  | Fence
  | Sleep nat

section \<open>The scripts\<close>

text \<open>\<^verbatim>\<open>TC002_Toggle_interaction_modes_between_Voice_and_Manual.py\<close>, lines 49 to 195.\<close>

definition TC002_steps :: "stmt list" where
  "TC002_steps =
    [Goto ''http://localhost:3000'' ''commit'' 10000,
     Click ''xpath=html/body/div/div/div[1]/div[2]/div[1]/div/div'' 3000 5000,
     Click ''xpath=html/body/div[1]/div/div[1]/div[1]/canvas'' 3000 5000,
     Click ''xpath=html/body/div/div/div[1]/div[2]/button'' 3000 5000,
     Click ''xpath=html/body/div/div/div[1]/div[1]/canvas'' 3000 5000,
     Click ''xpath=html/body/div[1]/div/div[1]/div[2]/div[1]/div/div'' 3000 5000,
     Click ''xpath=html/body/div/div/div[1]/div[2]/button'' 3000 5000,
     Goto ''http://localhost:3000'' ''commit'' 10000,
     Goto ''http://localhost:3000'' ''commit'' 10000,
     Goto ''http://localhost:3000'' ''commit'' 10000,
     Click ''xpath=html/body/div/div/div[1]/div[2]/div[1]/div/div'' 3000 5000,
     Click ''xpath=html/body/div[1]/div/div[1]/div[1]/canvas'' 3000 5000,
     Goto ''http://localhost:3000'' ''commit'' 10000,
     Click ''xpath=html/body/div/div/div[1]/div[2]/div[1]/div/div'' 3000 5000,
     Click ''xpath=html/body/div/div/div[1]/div[2]/button'' 3000 5000,
     Click ''xpath=html/body/div/div/div[1]/div[2]/div/div[3]/button'' 3000 5000,
     Click ''xpath=html/body/div/div/div[1]/div[2]/div[1]/div/div'' 3000 5000,
     Click ''xpath=html/body/div[1]/div/div[1]/div[2]/div[1]/div/div'' 3000 5000,
     Click ''xpath=html/body/div/div/div[1]/div[2]/button'' 3000 5000,
     Click ''xpath=html/body/div/div/div[1]/div[2]/div[1]/div/div'' 3000 5000,
     Click ''xpath=html/body/div[1]/div/div[1]/div[2]/div[1]/div/div'' 3000 5000,
     Click ''xpath=html/body/div/div/div[1]/div[2]/button'' 3000 5000,
     Click ''xpath=html/body/div/div/div[1]/div[2]/div[1]/div/div'' 3000 5000,
     Click ''xpath=html/body/div[1]/div/div[1]/div[2]/div[1]/div/div'' 3000 5000,
     Click ''xpath=html/body/div/div/div[1]/div[2]/button'' 3000 5000,
     Click ''xpath=html/body/div/div/div[1]/div[2]/div[1]/div/div'' 3000 5000,
     Click ''xpath=html/body/div[1]/div/div[1]/div[2]/div[1]/div/div'' 3000 5000,
     Sleep 5]"

text \<open>\<^verbatim>\<open>TC004_Navigate_from_Welcome_Page_to_Book_Room_flow_using_Voice_Mode.py\<close>, lines 49 to 163.\<close>

definition TC004_steps :: "stmt list" where
  "TC004_steps =
    [Goto ''http://localhost:3000'' ''commit'' 10000,
     Click ''xpath=html/body/div/div/div[1]/div[2]/div[1]/div/div'' 3000 5000,
     Click ''xpath=html/body/div[1]/div/div[1]/div[2]/div[1]/div/div'' 3000 5000,
     Click ''xpath=html/body/div/div/div[1]/div[4]/div[2]/button'' 3000 5000,
     Click ''xpath=html/body/div/div/div[1]/div[1]/canvas'' 3000 5000,
     Click ''xpath=html/body/div[1]/div/div[1]/div[1]/canvas'' 3000 5000,
     Click ''xpath=html/body/div/div/div[1]/div[4]/div[2]/button'' 3000 5000,
     Click ''xpath=html/body/div/div/div[1]/div[4]/div[2]/button'' 3000 5000,
     Click ''xpath=html/body/div/div/div[1]/div[2]/div[1]'' 3000 5000,
     Click ''xpath=html/body/div[1]/div/div[1]'' 3000 5000,
     Click ''xpath=html/body/div/div/div[1]/div[4]/div[2]/button'' 3000 5000,
     Click ''xpath=html/body/div/div/div[1]/div[2]/div[1]/div/div'' 3000 5000,
     Click ''xpath=html/body/div[1]/div/div[1]/div[2]/div[1]/div/div'' 3000 5000,
     Goto ''http://localhost:3000'' ''commit'' 10000,
     Click ''xpath=html/body/div/div/div[1]/div[2]/div[1]/div/div'' 3000 5000,
     Click ''xpath=html/body/div[1]/div/div[1]/div[2]/div[1]/h1'' 3000 5000,
     Click ''xpath=html/body/div/div/div[1]/div[4]/div[2]/button'' 3000 5000,
     Click ''xpath=html/body/div/div/div[1]/div[4]/div[2]/button'' 3000 5000,
     Click ''xpath=html/body/div/div/div[1]/div[2]/div[1]/div/div'' 3000 5000,
     Goto ''http://localhost:3000'' ''commit'' 10000,
     ExpectVisible ''text=Available Rooms'' 3000
       (''Test case failed: The voice command '' @ [CHR 0x27] @ ''Book Room'' @ [CHR 0x27] @ '' did not navigate to the Room Selection page showing available rooms; the test expected the Room Selection UI with a list of available rooms but it was not visible.''),
     Sleep 5]"

text \<open>\<^verbatim>\<open>TC006_Select_room_and_proceed_to_payment_in_Booking_workflow.py\<close>, lines 49 to 138.\<close>

definition TC006_steps :: "stmt list" where
  "TC006_steps =
    [Goto ''http://localhost:3000'' ''commit'' 10000,
     Goto ''http://localhost:3000'' ''commit'' 10000,
     Goto ''http://localhost:3000'' ''commit'' 10000,
     Goto ''http://localhost:3000/rooms'' ''commit'' 10000,
     Click ''xpath=html/body/div/div/div[1]/div[2]/div[1]/div/div'' 3000 5000,
     Click ''xpath=html/body/div[1]/div/div[1]/div[2]/div[1]/div/div'' 3000 5000,
     Click ''xpath=html/body/div/div/div[1]/div[2]/button'' 3000 5000,
     Click ''xpath=html/body/div/div/div[1]/div[2]/div[1]/div/div'' 3000 5000,
     Click ''xpath=html/body/div[1]/div/div[1]/div[1]/canvas'' 3000 5000,
     Click ''xpath=html/body/div/div/div[1]/div[2]/button'' 3000 5000,
     Click ''xpath=html/body/div[1]/div/div[1]/div[2]/div/div[2]/button[2]'' 3000 5000,
     Click ''xpath=html/body/div/div/div[1]/div[2]/div[1]/div/div'' 3000 5000,
     Click ''xpath=html/body/div[1]/div/div[1]/div[1]/canvas'' 3000 5000,
     Click ''xpath=html/body/div/div/div[1]/div[2]/button'' 3000 5000,
     Click ''xpath=html/body/div/div/div[1]/div[2]/div[1]/div/div'' 3000 5000,
     Click ''xpath=html/body/div[1]/div/div[1]/div[2]/div[1]/div/div'' 3000 5000,
     ExpectVisible ''text=Payment Summary'' 3000
       (''Test case failed: The test attempted to verify that selecting a room transitions to the payment section displaying the billing breakdown (room cost and applicable taxes), but the payment summary did not appear '' @ [CHR 0xE2, CHR 0x80, CHR 0x94] @ '' the payment screen with cost and tax details was not shown.''),
     Sleep 5]"

text \<open>\<^verbatim>\<open>TC007_Simulate_card_payment_and_verify_payment_acceptance.py\<close>, lines 49 to 131.\<close>

definition TC007_steps :: "stmt list" where
  "TC007_steps =
    [Goto ''http://localhost:3000'' ''commit'' 10000,
     Click ''xpath=html/body/div/div/div[1]/div[2]/div[1]/div/div'' 3000 5000,
     Click ''xpath=html/body/div[1]/div/div[1]/div[2]/div[1]/div/div'' 3000 5000,
     Click ''xpath=html/body/div/div/div[1]/div[2]/button'' 3000 5000,
     Click ''xpath=html/body/div/div/div[1]/div[1]/canvas'' 3000 5000,
     Click ''xpath=html/body/div/div/div[1]/div[2]/button'' 3000 5000,
     Click ''xpath=html/body/div[1]/div/div[1]/div[2]/div/div[2]/button[1]'' 3000 5000,
     Click ''xpath=html/body/div/div/div[1]/div[1]/canvas'' 3000 5000,
     Click ''xpath=html/body/div/div/div[1]/div[2]/button'' 3000 5000,
     Click ''xpath=html/body/div[1]/div/div[1]/div[2]/div/div[2]/button[1]'' 3000 5000,
     Click ''xpath=html/body/div/div/div[1]/div[2]/div[1]/div/div'' 3000 5000,
     Click ''xpath=html/body/div/div/div[1]/div[2]/button'' 3000 5000,
     Click ''xpath=html/body/div/div/div[1]/div[2]/div/div[2]/button[1]'' 3000 5000,
     Fence,
     ExpectVisible ''text=Payment Successful'' 3000
       (''Test case failed: The test attempted to verify that the payment simulation accepted card input and processed the payment, but the '' @ [CHR 0x27] @ ''Payment Successful'' @ [CHR 0x27] @ '' confirmation did not appear after submitting the payment''),
     Fence,
     Sleep 5]"

text \<open>\<^verbatim>\<open>TC008_Perform_ID_scanning_simulation_with_visual_progress_feedback.py\<close>, lines 49 to 156.\<close>

definition TC008_steps :: "stmt list" where
  "TC008_steps =
    [Goto ''http://localhost:3000'' ''commit'' 10000,
     Click ''xpath=html/body/div/div/div[1]/div[2]/div[1]/div/div'' 3000 5000,
     Click ''xpath=html/body/div/div/div[1]/div[2]/button'' 3000 5000,
     Click ''xpath=html/body/div/div/div[1]/div[2]/div[1]/div/div'' 3000 5000,
     Goto ''http://localhost:3000/'' ''commit'' 10000,
     Goto ''http://localhost:3000/'' ''commit'' 10000,
     Goto ''http://localhost:3000/'' ''commit'' 10000,
     Goto ''http://localhost:3000/'' ''commit'' 10000,
     Click ''xpath=html/body/div/div/div[1]/div[2]/div[1]/div/div'' 3000 5000,
     Click ''xpath=html/body/div/div/div[1]/div[2]/button'' 3000 5000,
     Click ''xpath=html/body/div/div/div[1]/div[2]/div[1]/div/div'' 3000 5000,
     Click ''xpath=html/body/div/div/div[1]/div[2]/button'' 3000 5000,
     Click ''xpath=html/body/div[1]/div/div[1]/div[2]/div/div[2]/button[1]'' 3000 5000,
     Click ''xpath=html/body/div/div/div[1]/div[2]/div[1]/div/div'' 3000 5000,
     Click ''xpath=html/body/div/div/div[1]/div[2]/button'' 3000 5000,
     Click ''xpath=html/body/div/div/div[1]/div[2]/div[1]/div/div'' 3000 5000,
     Click ''xpath=html/body/div/div/div[1]/div[2]/button'' 3000 5000,
     Click ''xpath=html/body/div/div/div[1]/div[2]/div[1]/div/div'' 3000 5000,
     Click ''xpath=html/body/div/div/div[1]/div[2]/button'' 3000 5000,
     Click ''xpath=html/body/div/div/div[1]/div[2]/div[1]/div/div'' 3000 5000,
     Goto ''http://localhost:3000/'' ''commit'' 10000,
     Sleep 5]"

text \<open>\<^verbatim>\<open>TC009_Verify_room_key_dispensing_simulation_after_successful_payment.py\<close>, lines 49 to 219.\<close>

definition TC009_steps :: "stmt list" where
  "TC009_steps =
    [Goto ''http://localhost:3000'' ''commit'' 10000,
     Click ''xpath=html/body/div/div/div[1]/div[2]/div[1]/div/div'' 3000 5000,
     Click ''xpath=html/body/div[1]/div/div[1]/div[2]/div[1]/div/div'' 3000 5000,
     Click ''xpath=html/body/div/div/div[1]/div[2]/button'' 3000 5000,
     Click ''xpath=html/body/div/div/div[1]/div[2]/div[1]/div/div'' 3000 5000,
     Goto ''http://localhost:3000'' ''commit'' 10000,
     Goto ''http://localhost:3000'' ''commit'' 10000,
     Click ''xpath=html/body/div/div/div[1]/div[2]/div[1]/div/div'' 3000 5000,
     Click ''xpath=html/body/div[1]/div/div[1]/div[2]/div[1]/div/div'' 3000 5000,
     Click ''xpath=html/body/div/div/div[1]/div[2]/button'' 3000 5000,
     Goto ''http://localhost:3000'' ''commit'' 10000,
     Click ''xpath=html/body/div/div/div[1]/div[2]/div[1]/div/div'' 3000 5000,
     Click ''xpath=html/body/div[1]/div/div[1]/div[2]/div[1]/div/div'' 3000 5000,
     Click ''xpath=html/body/div/div/div[1]/div[2]/button'' 3000 5000,
     Click ''xpath=html/body/div[1]/div/div[1]/div[2]/div/div[2]/button[1]'' 3000 5000,
     Click ''xpath=html/body/div/div/div[1]/div[2]/div[1]/div/div'' 3000 5000,
     Click ''xpath=html/body/div[1]/div/div[1]/div[2]/div[1]/div/div'' 3000 5000,
     Click ''xpath=html/body/div/div/div[1]/div[2]/button'' 3000 5000,
     Click ''xpath=html/body/div/div/div[1]/div[2]/div[1]/div/div'' 3000 5000,
     Click ''xpath=html/body/div[1]/div/div[1]/div[2]/div[1]/div/div'' 3000 5000,
     Click ''xpath=html/body/div/div/div[1]/div[2]/button'' 3000 5000,
     Goto ''http://localhost:3000'' ''commit'' 10000,
     Click ''xpath=html/body/div/div/div[1]/div[2]/div[1]/div/div'' 3000 5000,
     Click ''xpath=html/body/div[1]/div/div[1]/div[2]/div[1]/div/div'' 3000 5000,
     Click ''xpath=html/body/div/div/div[1]/div[2]/button'' 3000 5000,
     Click ''xpath=html/body/div[1]/div/div[1]/div[2]/div/div[2]/button[1]'' 3000 5000,
     Click ''xpath=html/body/div/div/div[1]/div[2]/div[1]/div/div'' 3000 5000,
     Click ''xpath=html/body/div[1]/div/div[1]/div[1]/canvas'' 3000 5000,
     Click ''xpath=html/body/div/div/div[1]/div[2]/div[1]/div/div'' 3000 5000,
     Click ''xpath=html/body/div[1]/div/div[1]/div[2]/div[1]/div/div'' 3000 5000,
     Click ''xpath=html/body/div/div/div[1]/div[2]/button'' 3000 5000,
     Sleep 5]"

text \<open>\<^verbatim>\<open>TC010_Check_backend_state_machine_drives_frontend_UI_correctly.py\<close>, lines 49 to 93.\<close>

definition TC010_steps :: "stmt list" where
  "TC010_steps =
    [Goto ''http://localhost:3000'' ''commit'' 10000,
     Click ''xpath=html/body/div/div/div[1]/div[2]/div[1]/div/div'' 3000 5000,
     Click ''xpath=html/body/div[1]/div/div[1]/div[1]/canvas'' 3000 5000,
     Click ''xpath=html/body/div/div/div[1]/div[4]/div[2]/button'' 3000 5000,
     Click ''xpath=html/body/div/div/div[1]/div[2]/div[1]/div/div'' 3000 5000,
     Click ''xpath=html/body/div/div/div[1]/div[4]/div[2]/button'' 3000 5000,
     Click ''xpath=html/body/div/div/div[1]/div[2]/div[1]/div/div'' 3000 5000,
     ExpectVisible ''text=Authority: BackendService | State: LISTENING'' 3000
       (''Test case failed: Expected the UI to display '' @ [CHR 0x27] @ ''Authority: BackendService | State: LISTENING'' @ [CHR 0x27] @ '' after triggering listening, verifying the frontend reflects backend-emitted state machine transitions; the text was not found, indicating the UI may not be driven by backend events or a premature frontend override occurred''),
     Sleep 5]"

text \<open>\<^verbatim>\<open>TC012_Complete_end_to_end_Room_Booking_workflow_successfully.py\<close>, lines 49 to 126.\<close>

definition TC012_steps :: "stmt list" where
  "TC012_steps =
    [Goto ''http://localhost:3000'' ''commit'' 10000,
     Click ''xpath=html/body/div/div/div[1]/div[2]/div[1]/div/div'' 3000 5000,
     Click ''xpath=html/body/div[1]/div/div[1]/div[2]/div[1]/div/div'' 3000 5000,
     Click ''xpath=html/body/div/div/div[1]/div[2]/button'' 3000 5000,
     Click ''xpath=html/body/div/div/div[1]/div[2]/div[1]/div/div'' 3000 5000,
     Click ''xpath=html/body/div[1]/div/div[1]/div[1]/canvas'' 3000 5000,
     Goto ''http://localhost:3000'' ''commit'' 10000,
     Click ''xpath=html/body/div/div/div[1]/div[1]/canvas'' 3000 5000,
     Click ''xpath=html/body/div/div/div[1]/div[1]/canvas'' 3000 5000,
     Click ''xpath=html/body/div[1]/div/div[1]/div[2]/div[1]/h1'' 3000 5000,
     Click ''xpath=html/body/div/div/div[1]/div[2]/button'' 3000 5000,
     Click ''xpath=html/body/div/div/div[1]/div[2]/div[1]/div/div'' 3000 5000,
     Click ''xpath=html/body/div[1]/div/div[1]/div[2]/div[2]'' 3000 5000,
     Click ''xpath=html/body/div/div/div[1]/div[2]/button'' 3000 5000,
     Sleep 5]"

text \<open>\<^verbatim>\<open>TC013_Error_handling_for_ID_scanning_simulation_timeout.py\<close>, lines 49 to 186.\<close>

definition TC013_steps :: "stmt list" where
  "TC013_steps =
    [Goto ''http://localhost:3000'' ''commit'' 10000,
     Click ''xpath=html/body/div/div/div[1]/div[2]/div[1]/div/div'' 3000 5000,
     Click ''xpath=html/body/div[1]/div/div[1]/div[2]/div[1]/div/div'' 3000 5000,
     Click ''xpath=html/body/div/div/div[1]/div[2]/button'' 3000 5000,
     Click ''xpath=html/body/div/div/div[1]/div[2]/div[1]/div/div'' 3000 5000,
     Click ''xpath=html/body/div[1]/div/div[1]/div[2]/div[1]/div/div'' 3000 5000,
     Click ''xpath=html/body/div/div/div[1]/div[2]/button'' 3000 5000,
     Click ''xpath=html/body/div/div/div[1]/div[2]/div[1]/div/div'' 3000 5000,
     Click ''xpath=html/body/div[1]/div/div[1]/div[2]/div[1]/div/div'' 3000 5000,
     Click ''xpath=html/body/div/div/div[1]/div[2]/button'' 3000 5000,
     Goto ''http://localhost:3000/'' ''commit'' 10000,
     Click ''xpath=html/body/div/div/div[1]/div[2]/div[1]/div/div'' 3000 5000,
     Click ''xpath=html/body/div[1]/div/div[1]/div[2]/div[1]/div/div'' 3000 5000,
     Click ''xpath=html/body/div/div/div[1]/div[2]/button'' 3000 5000,
     Click ''xpath=html/body/div/div/div[1]/div[2]/div[1]/div/div'' 3000 5000,
     Click ''xpath=html/body/div[1]/div/div[1]/div[2]/div[1]/div/div'' 3000 5000,
     Click ''xpath=html/body/div/div/div[1]/div[2]/button'' 3000 5000,
     Click ''xpath=html/body/div/div/div[1]/div[2]/div[1]/div/div'' 3000 5000,
     Click ''xpath=html/body/div[1]/div/div[1]/div[2]/div[1]/div/div'' 3000 5000,
     Click ''xpath=html/body/div/div/div[1]/div[2]/button'' 3000 5000,
     Click ''xpath=html/body/div/div/div[1]/div[2]/div[1]/div/div'' 3000 5000,
     Click ''xpath=html/body/div[1]/div/div[1]/div[2]/div[1]/div/div'' 3000 5000,
     Click ''xpath=html/body/div/div/div[1]/div[2]/div[1]/div/div'' 3000 5000,
     Click ''xpath=html/body/div[1]/div/div[1]/div[2]/div[1]/div/div'' 3000 5000,
     Sleep 5]"

text \<open>\<^verbatim>\<open>TC014_Error_handling_for_payment_failure.py\<close>, lines 49 to 68.\<close>

definition TC014_steps :: "stmt list" where
  "TC014_steps =
    [Goto ''http://localhost:3000'' ''commit'' 10000,
     Goto ''http://localhost:3000/?reload=1'' ''commit'' 10000,
     Goto ''http://localhost:3000'' ''commit'' 10000,
     Goto ''http://localhost:3000/?debug=1'' ''commit'' 10000,
     Fence,
     ExpectVisible ''text=Payment failed. Please try again or cancel.'' 3000
       (''Test case failed: The test simulated a payment failure and expected a clear '' @ [CHR 0x27] @ ''Payment failed'' @ [CHR 0x27] @ '' message and visible options to retry or cancel, but the error message or retry/cancel controls did not appear.''),
     Fence,
     Sleep 5]"

text \<open>\<^verbatim>\<open>TC015_Verify_Manual_Mode_action_buttons_are_accessible_and_responsive.py\<close>, lines 49 to 126.\<close>

definition TC015_steps :: "stmt list" where
  "TC015_steps =
    [Goto ''http://localhost:3000'' ''commit'' 10000,
     Click ''xpath=html/body/div/div/div[1]/div[2]/div[1]/div/div'' 3000 5000,
     Click ''xpath=html/body/div[1]/div/div[1]/div[2]/div[1]/div/div'' 3000 5000,
     Click ''xpath=html/body/div/div/div[1]/div[2]/button'' 3000 5000,
     Goto ''http://localhost:3000'' ''commit'' 10000,
     Click ''xpath=html/body/div/div/div[1]/div[1]/canvas'' 3000 5000,
     Click ''xpath=html/body/div[1]/div/div[1]/div[1]/canvas'' 3000 5000,
     Click ''xpath=html/body/div/div/div[1]/div[2]/div[1]/div/div'' 3000 5000,
     Click ''xpath=html/body/div[1]/div/div[1]/div[1]/canvas'' 3000 5000,
     Click ''xpath=html/body/div/div/div[1]/div[2]/button'' 3000 5000,
     Click ''xpath=html/body/div/div/div[1]/div[2]/div[1]/div/div'' 3000 5000,
     Click ''xpath=html/body/div[1]/div/div[1]/div[1]/canvas'' 3000 5000,
     Click ''xpath=html/body/div/div/div[1]/div[2]/button'' 3000 5000,
     ExpectVisible ''text=Check-In'' 3000
       (''Test case failed: Expected the '' @ [CHR 0x27] @ ''Check-In'' @ [CHR 0x27] @ '' button to be visible and responsive after activating Manual Mode on the Welcome Page; the button did not appear, so manual-mode controls (Check-In, Book Room, Help) are not accessible or the UI did not transition as expected''),
     Sleep 5]"

text \<open>\<^verbatim>\<open>TC016_Validate_presence_and_correct_functioning_of_Back_button_across_pages.py\<close>, lines 49 to 117.\<close>

definition TC016_steps :: "stmt list" where
  "TC016_steps =
    [Goto ''http://localhost:3000'' ''commit'' 10000,
     Click ''xpath=html/body/div/div/div[1]/div[2]/div[1]/div/div'' 3000 5000,
     Click ''xpath=html/body/div[1]/div/div[1]/div[2]/div[1]/div/div'' 3000 5000,
     Click ''xpath=html/body/div/div/div[1]/div[2]/button'' 3000 5000,
     Click ''xpath=html/body/div/div/div[1]/div[1]/canvas'' 3000 5000,
     Click ''xpath=html/body/div[1]/div/div[1]/div[2]/div[1]/div/div'' 3000 5000,
     Click ''xpath=html/body/div/div/div[1]/div[2]/button'' 3000 5000,
     Click ''xpath=html/body/div/div/div[1]/div[2]/div[1]/div/div'' 3000 5000,
     Click ''xpath=html/body/div[1]/div/div[1]/div[1]/canvas'' 3000 5000,
     Click ''xpath=html/body/div/div/div[1]/div[2]/button'' 3000 5000,
     Click ''xpath=html/body/div/div/div[1]/div[2]/div[1]/div/div'' 3000 5000,
     ExpectVisible ''text=TOUCH ANYWHERE TO START'' 3000
       (''Test case failed: Expected to return to the Welcome Page and see the '' @ [CHR 0x27] @ ''TOUCH ANYWHERE TO START'' @ [CHR 0x27] @ '' prompt after pressing the Back button. The Back button did not navigate back to the Welcome Page or the welcome prompt was not visible.''),
     Sleep 5]"

text \<open>\<^verbatim>\<open>TC017_Ensure_global_state_updates_correctly_on_user_actions_emitting_intents.py\<close>, lines 49 to 81.\<close>

definition TC017_steps :: "stmt list" where
  "TC017_steps =
    [Goto ''http://localhost:3000'' ''commit'' 10000,
     Click ''xpath=html/body/div/div/div[1]/div[2]/div[1]/div/div'' 3000 5000,
     Click ''xpath=html/body/div/div/div[1]/div[2]/div[1]/div/div'' 3000 5000,
     Click ''xpath=html/body/div[1]/div/div[1]/div[1]/canvas'' 3000 5000,
     Goto ''http://localhost:3000/'' ''commit'' 10000,
     Goto ''http://localhost:3000/'' ''commit'' 10000,
     ExpectVisible ''text=Intents Emitted and State Updated'' 3000
       (''Test case failed: expected the app to display a confirmation that all user interaction intents (select room, toggle mode, confirm payment) were emitted to the backend and that the global state was updated accordingly ('' @ [CHR 0x27] @ ''Intents Emitted and State Updated'' @ [CHR 0x27] @ ''), but the confirmation did not appear '' @ [CHR 0xE2, CHR 0x80, CHR 0x94] @ '' indicating intents/state updates were not processed or the UI did not reflect them.''),
     Sleep 5]"

datatype script =
    TC002 | TC004 | TC006 | TC007 | TC008 | TC009 | TC010
  | TC012 | TC013 | TC014 | TC015 | TC016 | TC017

fun steps :: "script \<Rightarrow> stmt list" where
  "steps TC002 = TC002_steps"
| "steps TC004 = TC004_steps"
| "steps TC006 = TC006_steps"
| "steps TC007 = TC007_steps"
| "steps TC008 = TC008_steps"
| "steps TC009 = TC009_steps"
| "steps TC010 = TC010_steps"
| "steps TC012 = TC012_steps"
| "steps TC013 = TC013_steps"
| "steps TC014 = TC014_steps"
| "steps TC015 = TC015_steps"
| "steps TC016 = TC016_steps"
| "steps TC017 = TC017_steps"

text \<open>
  The names bound at module level by lines 1, 2 and 4 of every script
  (\<^verbatim>\<open>import asyncio\<close>, \<^verbatim>\<open>from playwright import async_api\<close>, \<^verbatim>\<open>async def run_test\<close>),
  and the local variables of \<^verbatim>\<open>run_test\<close>. No script binds another name.
\<close>

definition module_names :: "string list" where
  "module_names = [''asyncio'', ''async_api'', ''run_test'']"

definition run_test_locals :: "string list" where
  "run_test_locals = [''pw'', ''browser'', ''context'', ''page'', ''frame'', ''elem'']"

definition script_names :: "string list" where
  "script_names = run_test_locals @ module_names"

section \<open>Running a script\<close>

text \<open>An awaited library call \<open>c\<close> whose result is \<open>r\<close>.\<close>

definition ext :: "call \<Rightarrow> fault option \<Rightarrow> outcome" where
  "ext c r = ([(c, r)], map_option External r)"

text \<open>Sequencing: the second part runs only when the first raised nothing.\<close>

definition then_do :: "outcome \<Rightarrow> outcome \<Rightarrow> outcome" where
  "then_do a b = (case snd a of Some e \<Rightarrow> a | None \<Rightarrow> (fst a @ fst b, snd b))"

text \<open>\<^verbatim>\<open>try: ... except async_api.Error: pass\<close>.\<close>

definition swallow_api_error :: "outcome \<Rightarrow> outcome" where
  "swallow_api_error a =
     (case snd a of
        Some (External f) \<Rightarrow> if is_async_api_Error f then (fst a, None) else a
      | _ \<Rightarrow> a)"

text \<open>
  One statement at position \<open>i\<close>. \<open>names\<close> are the names in scope that are not Python
  builtins (\<^verbatim>\<open>expect\<close> is not a builtin): Python evaluates the callee \<^verbatim>\<open>expect\<close> before
  anything else of the assertion, and an unbound name raises \<^verbatim>\<open>NameError\<close>, which
  \<^verbatim>\<open>except AssertionError\<close> does not catch. A fence line never runs, since a module that
  holds one does not compile.
\<close>

fun exec_stmt :: "env \<Rightarrow> string list \<Rightarrow> nat \<Rightarrow> stmt \<Rightarrow> outcome" where
  "exec_stmt env names i (Goto url wu t) = ext (PageGoto url wu t) (goto_r env i)"
| "exec_stmt env names i (Click sel g t) =
     then_do (ext (WaitForTimeout g) (wait_r env i)) (ext (LocatorClick sel t) (click_r env i))"
| "exec_stmt env names i (ExpectVisible sel t msg) =
     (if ''expect'' \<in> set names then
        (case visible_r env i of
           Some LibAssertionError \<Rightarrow> ([(ToBeVisible sel t, Some LibAssertionError)], Some (AssertionError msg))
         | r \<Rightarrow> ext (ToBeVisible sel t) r)
      else ([], Some (NameError ''expect'')))"
| "exec_stmt env names i Fence = ([], Some SyntaxError)"
| "exec_stmt env names i (Sleep n) = ext (AsyncioSleep n) (sleep_r env i)"

fun exec_body :: "env \<Rightarrow> string list \<Rightarrow> nat \<Rightarrow> stmt list \<Rightarrow> outcome" where
  "exec_body env names i [] = ([], None)"
| "exec_body env names i (st # rest) =
     then_do (exec_stmt env names i st) (exec_body env names (Suc i) rest)"

text \<open>
  Lines 34 to 45: the two waits for \<^verbatim>\<open>domcontentloaded\<close>, each in a
  \<^verbatim>\<open>try ... except async_api.Error: pass\<close>.
\<close>

fun frame_loop :: "env \<Rightarrow> nat list \<Rightarrow> outcome" where
  "frame_loop env [] = ([], None)"
| "frame_loop env (k # ks) =
     then_do
       (swallow_api_error
          (ext (FrameWaitForLoadState k ''domcontentloaded'' 3000) (frame_load_r env k)))
       (frame_loop env ks)"

definition load_states :: "env \<Rightarrow> outcome" where
  "load_states env =
     then_do
       (swallow_api_error (ext (WaitForLoadState ''domcontentloaded'' 3000) (load_state_r env)))
       (frame_loop env [0..<frames env])"

text \<open>
  The variables \<^verbatim>\<open>pw\<close>, \<^verbatim>\<open>browser\<close> and \<^verbatim>\<open>context\<close> of \<^verbatim>\<open>run_test\<close>: \<open>False\<close> while
  the variable is \<^verbatim>\<open>None\<close>, \<open>True\<close> once it holds the object a call returned.
\<close>

record vars =
  pw :: bool
  browser :: bool
  ctx :: bool

text \<open>
  Lines 9 to the end of the \<^verbatim>\<open>try\<close> block: the session, the browser, the context
  (\<^verbatim>\<open>set_default_timeout\<close> is not awaited and sets a field), the page, the first
  navigation, the waits, and then the statements of the script.
\<close>

definition try_block :: "env \<Rightarrow> string list \<Rightarrow> stmt list \<Rightarrow> vars \<times> outcome" where
  "try_block env names body =
     (case start_r env of
        Some f \<Rightarrow>
          (\<lparr>pw = False, browser = False, ctx = False\<rparr>, ext PlaywrightStart (Some f))
      | None \<Rightarrow>
     (case launch_r env of
        Some f \<Rightarrow>
          (\<lparr>pw = True, browser = False, ctx = False\<rparr>,
           then_do (ext PlaywrightStart None) (ext ChromiumLaunch (Some f)))
      | None \<Rightarrow>
     (case new_context_r env of
        Some f \<Rightarrow>
          (\<lparr>pw = True, browser = True, ctx = False\<rparr>,
           then_do (ext PlaywrightStart None)
          (then_do (ext ChromiumLaunch None) (ext NewContext (Some f))))
      | None \<Rightarrow>
          (\<lparr>pw = True, browser = True, ctx = True\<rparr>,
           then_do (ext PlaywrightStart None)
          (then_do (ext ChromiumLaunch None)
          (then_do (ext NewContext None)
          (then_do (ext (SetDefaultTimeout 5000) None)
          (then_do (ext NewPage (new_page_r env))
          (then_do (ext (PageGoto ''http://localhost:3000'' ''commit'' 10000) (first_goto_r env))
          (then_do (load_states env)
                   (exec_body env names 0 body)))))))))))"

text \<open>
  The \<^verbatim>\<open>finally\<close> block: three guarded calls in a row. A call that raises ends the block,
  as any statement does.
\<close>

definition teardown :: "env \<Rightarrow> vars \<Rightarrow> outcome" where
  "teardown env v =
     then_do (if ctx v then ext ContextClose (context_close_r env) else ([], None))
    (then_do (if browser v then ext BrowserClose (browser_close_r env) else ([], None))
             (if pw v then ext PlaywrightStop (stop_r env) else ([], None)))"

text \<open>
  \<^verbatim>\<open>run_test\<close>: the \<^verbatim>\<open>try\<close> block, then the \<^verbatim>\<open>finally\<close> block whatever the first
  raised. An exception of the \<^verbatim>\<open>finally\<close> block replaces the one in flight; otherwise
  the exception of the \<^verbatim>\<open>try\<close> block goes on to the caller.
\<close>

definition run_test :: "env \<Rightarrow> string list \<Rightarrow> stmt list \<Rightarrow> outcome" where
  "run_test env names body =
     (let (v, a) = try_block env names body;
          b = teardown env v
      in (fst a @ fst b, case snd b of Some e \<Rightarrow> Some e | None \<Rightarrow> snd a))"

text \<open>
  Running the file. Python compiles the whole module before it runs its first line, and
  a line of backquotes is no Python: with such a line in it nothing of the file runs.
  Otherwise the last line calls \<^verbatim>\<open>run_test\<close>.
\<close>

definition parses :: "stmt list \<Rightarrow> bool" where
  "parses body = (Fence \<notin> set body)"

definition run_script :: "env \<Rightarrow> script \<Rightarrow> outcome" where
  "run_script env s =
     (if parses (steps s) then run_test env script_names (steps s)
      else ([], Some SyntaxError))"

section \<open>Concrete environments\<close>

text \<open>Every library call returns; the page has its main frame only.\<close>

definition env_ok :: env where
  "env_ok =
     \<lparr>start_r = None, launch_r = None, new_context_r = None, new_page_r = None,
      first_goto_r = None, load_state_r = None, frames = 1, frame_load_r = (\<lambda>k. None),
      goto_r = (\<lambda>i. None), wait_r = (\<lambda>i. None), click_r = (\<lambda>i. None),
      visible_r = (\<lambda>i. None), sleep_r = (\<lambda>i. None),
      context_close_r = None, browser_close_r = None, stop_r = None\<rparr>"

text \<open>Environments in which one call of the statement at position \<open>i\<close> raises \<open>f\<close>.\<close>

definition env_click_fails :: "nat \<Rightarrow> fault \<Rightarrow> env" where
  "env_click_fails i f = env_ok\<lparr>click_r := (\<lambda>j. if j = i then Some f else None)\<rparr>"

definition env_goto_fails :: "nat \<Rightarrow> fault \<Rightarrow> env" where
  "env_goto_fails i f = env_ok\<lparr>goto_r := (\<lambda>j. if j = i then Some f else None)\<rparr>"

text \<open>
  The navigation of line 32 raises \<open>f\<close>; \<^verbatim>\<open>context.close()\<close>, \<^verbatim>\<open>browser.close()\<close>
  or \<^verbatim>\<open>pw.stop()\<close> raises \<open>f\<close>.
\<close>

definition env_first_goto_fails :: "fault \<Rightarrow> env" where
  "env_first_goto_fails f = env_ok\<lparr>first_goto_r := Some f\<rparr>"

definition env_context_close_fails :: "fault \<Rightarrow> env" where
  "env_context_close_fails f = env_ok\<lparr>context_close_r := Some f\<rparr>"

definition env_browser_close_fails :: "fault \<Rightarrow> env" where
  "env_browser_close_fails f = env_ok\<lparr>browser_close_r := Some f\<rparr>"

definition env_stop_fails :: "fault \<Rightarrow> env" where
  "env_stop_fails f = env_ok\<lparr>stop_r := Some f\<rparr>"

section \<open>The calls a statement can issue\<close>

fun stmt_calls :: "stmt \<Rightarrow> call list" where
  "stmt_calls (Goto url wu t) = [PageGoto url wu t]"
| "stmt_calls (Click sel g t) = [WaitForTimeout g, LocatorClick sel t]"
| "stmt_calls (ExpectVisible sel t msg) = [ToBeVisible sel t]"
| "stmt_calls Fence = []"
| "stmt_calls (Sleep n) = [AsyncioSleep n]"

section \<open>Properties of statements, calls and traces\<close>

text \<open>
  The calls that lines 9 to 45 and the \<^verbatim>\<open>finally\<close> block issue, the same in every
  script.
\<close>

definition is_fixed_call :: "call \<Rightarrow> bool" where
  "is_fixed_call c =
     (case c of
        PlaywrightStart \<Rightarrow> True
      | ChromiumLaunch \<Rightarrow> True
      | NewContext \<Rightarrow> True
      | SetDefaultTimeout t \<Rightarrow> t = 5000
      | NewPage \<Rightarrow> True
      | PageGoto url wu t \<Rightarrow> url = ''http://localhost:3000'' \<and> wu = ''commit'' \<and> t = 10000
      | WaitForLoadState st t \<Rightarrow> st = ''domcontentloaded'' \<and> t = 3000
      | FrameWaitForLoadState k st t \<Rightarrow> st = ''domcontentloaded'' \<and> t = 3000
      | WaitForTimeout g \<Rightarrow> False
      | LocatorClick sel t \<Rightarrow> False
      | ToBeVisible sel t \<Rightarrow> False
      | AsyncioSleep n \<Rightarrow> False
      | ContextClose \<Rightarrow> True
      | BrowserClose \<Rightarrow> True
      | PlaywrightStop \<Rightarrow> True)"

text \<open>A click step with the grace delay of 3000 ms and the click timeout of 5000 ms.\<close>

definition click_stmt_ok :: "stmt \<Rightarrow> bool" where
  "click_stmt_ok st = (case st of Click sel g t \<Rightarrow> g = 3000 \<and> t = 5000 | _ \<Rightarrow> True)"

text \<open>
  A trace in which every click has the timeout 5000 and comes right after a
  \<^verbatim>\<open>wait_for_timeout(3000)\<close> that returned, and no other \<^verbatim>\<open>wait_for_timeout\<close> occurs.
  \<open>prev\<close> is the entry before the trace.
\<close>

fun graced_from :: "(call \<times> fault option) option \<Rightarrow> trace \<Rightarrow> bool" where
  "graced_from prev [] = True"
| "graced_from prev (x # tr) =
     ((case fst x of
         LocatorClick sel t \<Rightarrow> t = 5000 \<and> prev = Some (WaitForTimeout 3000, None)
       | WaitForTimeout g \<Rightarrow> g = 3000
       | _ \<Rightarrow> True)
      \<and> graced_from (Some x) tr)"

definition graced :: "trace \<Rightarrow> bool" where
  "graced tr = graced_from None tr"

text \<open>
  The origin of a URL: its scheme, and the authority (host and port) that follows
  \<^verbatim>\<open>://\<close> up to the first \<^verbatim>\<open>/\<close>, \<^verbatim>\<open>?\<close> or \<^verbatim>\<open>#\<close>. \<open>on_base\<close> holds of the URLs
  whose origin is \<^verbatim>\<open>http://localhost:3000\<close>, whatever route or query follows.
\<close>

definition url_scheme :: "string \<Rightarrow> string" where
  "url_scheme u = takeWhile (\<lambda>c. c \<noteq> CHR '':'') u"

definition url_authority :: "string \<Rightarrow> string" where
  "url_authority u =
     takeWhile (\<lambda>c. c \<noteq> CHR ''/'' \<and> c \<noteq> CHR ''?'' \<and> c \<noteq> CHR ''#'')
       (drop (length (url_scheme u) + 3) u)"

definition on_base :: "string \<Rightarrow> bool" where
  "on_base u =
     (url_scheme u = ''http'' \<and> take 3 (drop 4 u) = ''://''
      \<and> url_authority u = ''localhost:3000'')"

definition goto_stmt_on_base :: "stmt \<Rightarrow> bool" where
  "goto_stmt_on_base st = (case st of Goto url wu t \<Rightarrow> on_base url | _ \<Rightarrow> True)"

definition goto_call_on_base :: "call \<Rightarrow> bool" where
  "goto_call_on_base c = (case c of PageGoto url wu t \<Rightarrow> on_base url | _ \<Rightarrow> True)"

text \<open>
  The run up to the first statement of the script when nothing raises there: lines 9 to
  45 returned (an \<^verbatim>\<open>async_api.Error\<close> of a wait for the load state is swallowed), and the
  three variables hold their objects.
\<close>

definition all_set :: vars where
  "all_set = \<lparr>pw = True, browser = True, ctx = True\<rparr>"

definition boot_ok :: "env \<Rightarrow> bool" where
  "boot_ok env =
     (start_r env = None \<and> launch_r env = None \<and> new_context_r env = None
      \<and> new_page_r env = None \<and> first_goto_r env = None \<and> snd (load_states env) = None)"

definition boot_trace :: "env \<Rightarrow> trace" where
  "boot_trace env =
     [(PlaywrightStart, None), (ChromiumLaunch, None), (NewContext, None),
      (SetDefaultTimeout 5000, None), (NewPage, None),
      (PageGoto ''http://localhost:3000'' ''commit'' 10000, None)]
     @ fst (load_states env)"

text \<open>
  Assertion steps, action steps (navigations and clicks), and the setup part of a script:
  its statements before the first assertion step.
\<close>

fun is_assert :: "stmt \<Rightarrow> bool" where
  "is_assert (ExpectVisible sel t msg) = True"
| "is_assert st = False"

fun is_action :: "stmt \<Rightarrow> bool" where
  "is_action (Goto url wu t) = True"
| "is_action (Click sel g t) = True"
| "is_action st = False"

definition setup_steps :: "stmt list \<Rightarrow> stmt list" where
  "setup_steps body = takeWhile (\<lambda>st. \<not> is_assert st) body"

text \<open>A navigation with the arguments \<^verbatim>\<open>wait_until="commit", timeout=10000\<close>.\<close>

definition goto_stmt_bounded :: "stmt \<Rightarrow> bool" where
  "goto_stmt_bounded st =
     (case st of Goto url wu t \<Rightarrow> wu = ''commit'' \<and> t = 10000 | _ \<Rightarrow> True)"

text \<open>
  The calls that acquire or release the three resources of a session, and the release
  calls of a trace in the order they were issued.
\<close>

definition is_close_call :: "call \<Rightarrow> bool" where
  "is_close_call c =
     (case c of ContextClose \<Rightarrow> True | BrowserClose \<Rightarrow> True | PlaywrightStop \<Rightarrow> True
      | _ \<Rightarrow> False)"

definition is_session_call :: "call \<Rightarrow> bool" where
  "is_session_call c =
     (case c of PlaywrightStart \<Rightarrow> True | ChromiumLaunch \<Rightarrow> True | NewContext \<Rightarrow> True
      | _ \<Rightarrow> is_close_call c)"

definition closes :: "trace \<Rightarrow> call list" where
  "closes tr = filter is_close_call (map fst tr)"

text \<open>The calls that should release what a trace acquired: context, browser, session.\<close>

definition due_closes :: "trace \<Rightarrow> call list" where
  "due_closes tr =
     (if (NewContext, None) \<in> set tr then [ContextClose] else [])
     @ (if (ChromiumLaunch, None) \<in> set tr then [BrowserClose] else [])
     @ (if (PlaywrightStart, None) \<in> set tr then [PlaywrightStop] else [])"

text \<open>
  The release calls of a trace with their results, and those among them that returned,
  so that the resource is released. \<open>release_result\<close> is what the environment answers to
  a release call. \<open>release_run env cs\<close> is a teardown that issues the release calls \<open>cs\<close>
  in order and ends with the first that raises.
\<close>

definition release_entries :: "trace \<Rightarrow> trace" where
  "release_entries tr = filter (\<lambda>x. is_close_call (fst x)) tr"

definition released :: "trace \<Rightarrow> call list" where
  "released tr = map fst (filter (\<lambda>x. is_close_call (fst x) \<and> snd x = None) tr)"

definition release_result :: "env \<Rightarrow> call \<Rightarrow> fault option" where
  "release_result env c =
     (case c of
        ContextClose \<Rightarrow> context_close_r env
      | BrowserClose \<Rightarrow> browser_close_r env
      | PlaywrightStop \<Rightarrow> stop_r env
      | _ \<Rightarrow> None)"

fun release_run :: "env \<Rightarrow> call list \<Rightarrow> trace" where
  "release_run env [] = []"
| "release_run env (c # cs) =
     (c, release_result env c) # (if release_result env c = None then release_run env cs else [])"

text \<open>
  A run of candidate locators as the scripts write it: one click step after the other.
  \<open>clicks_done\<close> is the trace of candidates that were all clicked; \<open>clicked\<close> lists the
  selectors of the clicks of a trace that returned.
\<close>

definition candidate_steps :: "string list \<Rightarrow> nat \<Rightarrow> nat \<Rightarrow> stmt list" where
  "candidate_steps cands g t = map (\<lambda>c. Click c g t) cands"

definition clicks_done :: "string list \<Rightarrow> nat \<Rightarrow> nat \<Rightarrow> trace" where
  "clicks_done cands g t =
     concat (map (\<lambda>c. [(WaitForTimeout g, None), (LocatorClick c t, None)]) cands)"

definition clicked :: "trace \<Rightarrow> string list" where
  "clicked tr =
     concat (map (\<lambda>x. case x of (LocatorClick sel t, None) \<Rightarrow> [sel] | _ \<Rightarrow> []) tr)"

text \<open>
  An assertion step asks for the visibility of a \<^verbatim>\<open>text=\<close> selector with the timeout
  3000 ms and names a failure message that starts with \<^verbatim>\<open>Test case failed: \<close>. \<open>asserted\<close>
  lists the selectors of the assertion steps of a script. In \<open>assertion_last\<close> no navigation
  or click comes after the first assertion step; \<open>after_assertion\<close> is what does come
  after it.
\<close>

definition assert_stmt_ok :: "stmt \<Rightarrow> bool" where
  "assert_stmt_ok st =
     (case st of
        ExpectVisible sel t msg \<Rightarrow>
          t = 3000 \<and> take 5 sel = ''text='' \<and> take 18 msg = ''Test case failed: ''
      | _ \<Rightarrow> True)"


definition assertion_last :: "stmt list \<Rightarrow> bool" where
  "assertion_last body = (\<not> list_ex is_action (dropWhile (\<lambda>st. \<not> is_assert st) body))"

definition after_assertion :: "stmt list \<Rightarrow> stmt list" where
  "after_assertion body = drop 1 (dropWhile (\<lambda>st. \<not> is_assert st) body)"





section \<open>Sequencing lemmas\<close>

lemma then_do_None [simp]: "then_do (tr, None) b = (tr @ fst b, snd b)"
  by (simp add: then_do_def)

lemma then_do_Some [simp]: "then_do (tr, Some e) b = (tr, Some e)"
  by (simp add: then_do_def)

lemma ext_None [simp]: "ext c None = ([(c, None)], None)"
  by (simp add: ext_def)

lemma ext_Some [simp]: "ext c (Some f) = ([(c, Some f)], Some (External f))"
  by (simp add: ext_def)

lemma fst_then_do:
  "fst (then_do a b) = (case snd a of Some e \<Rightarrow> fst a | None \<Rightarrow> fst a @ fst b)"
  by (simp add: then_do_def split: option.splits)

lemma snd_then_do:
  "snd (then_do a b) = (case snd a of Some e \<Rightarrow> Some e | None \<Rightarrow> snd b)"
  by (simp add: then_do_def split: option.splits)

lemma then_do_assoc: "then_do (then_do a b) c = then_do a (then_do b c)"
  by (cases a; cases b; cases c) (auto simp: then_do_def split: option.splits)

lemma then_do_nil_right [simp]: "then_do a ([], None) = a"
  by (cases a) (auto simp: then_do_def split: option.splits)

lemma exec_body_append:
  "exec_body env names i (xs @ ys) =
     then_do (exec_body env names i xs) (exec_body env names (i + length xs) ys)"
  by (induction xs arbitrary: i) (simp_all add: then_do_assoc)

lemma exec_stmt_all:
  "list_all P (stmt_calls st) \<Longrightarrow> list_all (\<lambda>x. P (fst x)) (fst (exec_stmt env names i st))"
  by (cases st) (auto simp: ext_def then_do_def split: option.splits fault.splits)

lemma then_do_all:
  "list_all Q (fst a) \<Longrightarrow> list_all Q (fst b) \<Longrightarrow> list_all Q (fst (then_do a b))"
  by (simp add: fst_then_do split: option.splits)

lemma exec_body_all:
  "list_all (\<lambda>st. list_all P (stmt_calls st)) body \<Longrightarrow>
   list_all (\<lambda>x. P (fst x)) (fst (exec_body env names i body))"
  by (induction body arbitrary: i) (simp_all add: then_do_all exec_stmt_all)

lemma exec_body_no_assertion_error:
  "''expect'' \<notin> set names \<Longrightarrow> snd (exec_body env names i body) \<noteq> Some (AssertionError m)"
proof (induction body arbitrary: i)
  case Nil
  show ?case by simp
next
  case (Cons st rest)
  have "snd (exec_stmt env names i st) \<noteq> Some (AssertionError m)"
    using Cons.prems by (cases st) (auto simp: ext_def then_do_def split: option.splits)
  with Cons.IH [OF Cons.prems, of "Suc i"] show ?case
    by (auto simp: snd_then_do split: option.splits)
qed

section \<open>The two scripts that do not compile\<close>

text \<open>
  C1. \<^verbatim>\<open>TC007\<close> and \<^verbatim>\<open>TC014\<close> hold lines of three backquotes inside the body of
  \<^verbatim>\<open>run_test\<close> (around the final assertion), so neither file compiles. In every
  environment, running either file ends with \<^verbatim>\<open>SyntaxError\<close> and an empty trace: no
  session is started, no navigation or click is issued, and the visibility check of the
  final payment assertion is never called.
\<close>

theorem fenced_scripts_never_run:
  "Fence \<in> set (steps TC007) \<and> Fence \<in> set (steps TC014)
   \<and> \<not> parses (steps TC007) \<and> \<not> parses (steps TC014)
   \<and> run_script env TC007 = ([], Some SyntaxError)
   \<and> run_script env TC014 = ([], Some SyntaxError)"
  by (simp add: run_script_def parses_def TC007_steps_def TC014_steps_def)

section \<open>Traces of a whole run\<close>

lemma fst_swallow [simp]: "fst (swallow_api_error a) = fst a"
  by (simp add: swallow_api_error_def split: option.splits exn.splits)

text \<open>
  A property of traces that sequencing keeps, and that holds of every single call of the
  fixed part, holds of the trace of \<^verbatim>\<open>run_test\<close> as soon as it holds of the trace of the
  statements.
\<close>

lemma frame_loop_closed:
  assumes cl: "\<And>a b. T (fst a) \<Longrightarrow> T (fst b) \<Longrightarrow> T (fst (then_do a b))"
    and nil: "T []"
    and single: "\<And>c r. is_fixed_call c \<Longrightarrow> T [(c, r)]"
  shows "T (fst (frame_loop env ks))"
proof (induction ks)
  case Nil
  show ?case by (simp add: nil)
next
  case (Cons k ks)
  have "T (fst (swallow_api_error
          (ext (FrameWaitForLoadState k ''domcontentloaded'' 3000) (frame_load_r env k))))"
    by (simp add: ext_def single is_fixed_call_def)
  from cl [OF this Cons.IH] show ?case by simp
qed

lemma load_states_closed:
  assumes cl: "\<And>a b. T (fst a) \<Longrightarrow> T (fst b) \<Longrightarrow> T (fst (then_do a b))"
    and nil: "T []"
    and single: "\<And>c r. is_fixed_call c \<Longrightarrow> T [(c, r)]"
  shows "T (fst (load_states env))"
proof -
  have "T (fst (swallow_api_error
          (ext (WaitForLoadState ''domcontentloaded'' 3000) (load_state_r env))))"
    by (simp add: ext_def single is_fixed_call_def)
  from cl [OF this frame_loop_closed [of T, OF cl nil single]] show ?thesis
    by (simp add: load_states_def)
qed

lemma teardown_closed:
  assumes cl: "\<And>a b. T (fst a) \<Longrightarrow> T (fst b) \<Longrightarrow> T (fst (then_do a b))"
    and nil: "T []"
    and single: "\<And>c r. is_fixed_call c \<Longrightarrow> T [(c, r)]"
  shows "T (fst (teardown env v))"
proof -
  have c: "T (fst (if ctx v then ext ContextClose (context_close_r env) else ([], None)))"
    by (simp add: ext_def single nil is_fixed_call_def)
  have b: "T (fst (if browser v then ext BrowserClose (browser_close_r env) else ([], None)))"
    by (simp add: ext_def single nil is_fixed_call_def)
  have p: "T (fst (if pw v then ext PlaywrightStop (stop_r env) else ([], None)))"
    by (simp add: ext_def single nil is_fixed_call_def)
  show ?thesis
    unfolding teardown_def by (rule cl [OF c cl [OF b p]])
qed

lemma try_block_closed:
  assumes cl: "\<And>a b. T (fst a) \<Longrightarrow> T (fst b) \<Longrightarrow> T (fst (then_do a b))"
    and nil: "T []"
    and single: "\<And>c r. is_fixed_call c \<Longrightarrow> T [(c, r)]"
    and body: "T (fst (exec_body env names 0 body))"
  shows "T (fst (snd (try_block env names body)))"
proof -
  have e: "\<And>c r. is_fixed_call c \<Longrightarrow> T (fst (ext c r))"
    by (simp add: ext_def single)
  have fx: "is_fixed_call PlaywrightStart" "is_fixed_call ChromiumLaunch"
    "is_fixed_call NewContext" "is_fixed_call (SetDefaultTimeout 5000)" "is_fixed_call NewPage"
    "is_fixed_call (PageGoto ''http://localhost:3000'' ''commit'' 10000)"
    by (simp_all add: is_fixed_call_def)
  note ls = load_states_closed [of T env, OF cl nil single]
  show ?thesis
    unfolding try_block_def
    by (auto split: option.splits simp del: then_do_None then_do_Some ext_None ext_Some
        intro!: cl e fx ls body)
qed

lemma run_test_closed:
  assumes cl: "\<And>a b. T (fst a) \<Longrightarrow> T (fst b) \<Longrightarrow> T (fst (then_do a b))"
    and nil: "T []"
    and single: "\<And>c r. is_fixed_call c \<Longrightarrow> T [(c, r)]"
    and body: "T (fst (exec_body env names 0 body))"
  shows "T (fst (run_test env names body))"
proof -
  obtain v a where va: "try_block env names body = (v, a)"
    by (cases "try_block env names body")
  have a: "T (fst a)"
    using try_block_closed [of T env names body, OF cl nil single body] va by simp
  have "T (fst (then_do (fst a, None) (teardown env v)))"
    by (rule cl) (simp_all add: a teardown_closed [of T, OF cl nil single])
  then show ?thesis
    by (simp add: run_test_def va Let_def)
qed

lemma run_script_closed:
  assumes cl: "\<And>a b. T (fst a) \<Longrightarrow> T (fst b) \<Longrightarrow> T (fst (then_do a b))"
    and nil: "T []"
    and single: "\<And>c r. is_fixed_call c \<Longrightarrow> T [(c, r)]"
    and body: "T (fst (exec_body env script_names 0 (steps s)))"
  shows "T (fst (run_script env s))"
  using run_test_closed [of T env script_names "steps s", OF cl nil single body]
  by (simp add: run_script_def nil)

section \<open>Grace delay and click timeout\<close>

lemma graced_from_weaken: "graced_from None tr \<Longrightarrow> graced_from p tr"
  by (cases tr) (auto split: call.splits)

lemma graced_from_append:
  "graced_from p a \<Longrightarrow> graced_from None b \<Longrightarrow> graced_from p (a @ b)"
  by (induction a arbitrary: p) (auto intro: graced_from_weaken)

lemma graced_then_do: "graced (fst a) \<Longrightarrow> graced (fst b) \<Longrightarrow> graced (fst (then_do a b))"
  by (auto simp: graced_def fst_then_do graced_from_append split: option.splits)

lemma graced_fixed: "is_fixed_call c \<Longrightarrow> graced [(c, r)]"
  by (auto simp: graced_def is_fixed_call_def split: call.splits)

lemma graced_exec_stmt: "click_stmt_ok st \<Longrightarrow> graced (fst (exec_stmt env names i st))"
  by (cases st)
    (auto simp: graced_def click_stmt_ok_def ext_def then_do_def split: option.splits fault.splits)

lemma graced_exec_body:
  "list_all click_stmt_ok body \<Longrightarrow> graced (fst (exec_body env names i body))"
proof (induction body arbitrary: i)
  case Nil
  show ?case by (simp add: graced_def)
next
  case (Cons st rest)
  then show ?case
    by (simp add: graced_then_do graced_exec_stmt)
qed

lemma click_steps_ok: "list_all click_stmt_ok (steps s)"
  by (cases s)
    (simp_all add: click_stmt_ok_def TC002_steps_def TC004_steps_def TC006_steps_def
      TC007_steps_def TC008_steps_def TC009_steps_def TC010_steps_def TC012_steps_def
      TC013_steps_def TC014_steps_def TC015_steps_def TC016_steps_def TC017_steps_def)

text \<open>
  C8. In every script every click step has the grace delay 3000 ms and the click timeout
  5000 ms and no other constants; and in every run of every script, every click that is
  issued has the timeout 5000 and directly follows a \<^verbatim>\<open>wait_for_timeout(3000)\<close> that
  returned, and every \<^verbatim>\<open>wait_for_timeout\<close> is one of 3000.
\<close>

theorem click_grace_and_timeout:
  "list_all click_stmt_ok (steps s) \<and> graced (fst (run_script env s))"
proof
  show "list_all click_stmt_ok (steps s)"
    by (rule click_steps_ok)
  show "graced (fst (run_script env s))"
  proof (rule run_script_closed)
    show "graced []" by (simp add: graced_def)
    show "graced (fst (exec_body env script_names 0 (steps s)))"
      by (rule graced_exec_body [OF click_steps_ok])
  qed (simp_all add: graced_then_do graced_fixed)
qed

section \<open>Navigation targets\<close>

lemma on_base_urls:
  "on_base ''http://localhost:3000''"
  "on_base ''http://localhost:3000/''"
  "on_base ''http://localhost:3000/rooms''"
  "on_base ''http://localhost:3000/?reload=1''"
  "on_base ''http://localhost:3000/?debug=1''"
  by (simp_all add: on_base_def url_scheme_def url_authority_def)

text \<open>Another port, another scheme or another host is not on the base.\<close>

lemma on_base_rejects:
  "\<not> on_base ''http://localhost:30001/rooms''"
  "\<not> on_base ''https://localhost:3000''"
  "\<not> on_base ''http://example.org/?next=http://localhost:3000''"
  by (simp_all add: on_base_def url_scheme_def url_authority_def)

lemma goto_steps_on_base: "list_all goto_stmt_on_base (steps s)"
  by (cases s)
    (simp_all add: goto_stmt_on_base_def on_base_urls TC002_steps_def TC004_steps_def
      TC006_steps_def TC007_steps_def TC008_steps_def TC009_steps_def TC010_steps_def
      TC012_steps_def TC013_steps_def TC014_steps_def TC015_steps_def TC016_steps_def
      TC017_steps_def)

lemma goto_stmt_calls_on_base:
  "goto_stmt_on_base st \<Longrightarrow> list_all goto_call_on_base (stmt_calls st)"
  by (cases st) (simp_all add: goto_stmt_on_base_def goto_call_on_base_def)

lemma list_all_mono: "list_all P xs \<Longrightarrow> (\<And>x. P x \<Longrightarrow> Q x) \<Longrightarrow> list_all Q xs"
  by (induction xs) simp_all

text \<open>
  C10. In every script every \<^verbatim>\<open>page.goto\<close> targets a URL with scheme \<^verbatim>\<open>http\<close> and
  authority \<^verbatim>\<open>localhost:3000\<close>, varying only in what follows (a route or a query); and in
  every run of every script, every navigation that is issued, the one of line 32
  included, goes to that host and port.
\<close>

theorem navigation_stays_on_base:
  "list_all goto_stmt_on_base (steps s)
   \<and> list_all (\<lambda>x. goto_call_on_base (fst x)) (fst (run_script env s))"
proof
  show "list_all goto_stmt_on_base (steps s)"
    by (rule goto_steps_on_base)
  show "list_all (\<lambda>x. goto_call_on_base (fst x)) (fst (run_script env s))"
  proof (rule run_script_closed)
    fix c :: call and r :: "fault option"
    assume "is_fixed_call c"
    then show "list_all (\<lambda>x. goto_call_on_base (fst x)) [(c, r)]"
      by (cases c) (simp_all add: is_fixed_call_def goto_call_on_base_def on_base_urls)
  next
    show "list_all (\<lambda>x. goto_call_on_base (fst x)) (fst (exec_body env script_names 0 (steps s)))"
      by (rule exec_body_all)
        (rule list_all_mono [OF goto_steps_on_base goto_stmt_calls_on_base])
  qed (simp_all add: then_do_all)
qed

section \<open>The run when the session came up\<close>

lemma run_test_boot_ok:
  assumes "boot_ok env"
  shows "run_test env names body =
     (boot_trace env @ fst (exec_body env names 0 body) @ fst (teardown env all_set),
      case snd (teardown env all_set) of
        Some e \<Rightarrow> Some e
      | None \<Rightarrow> snd (exec_body env names 0 body))"
proof -
  obtain ls where ls: "load_states env = (ls, None)"
    using assms by (cases "load_states env") (simp add: boot_ok_def)
  have "try_block env names body =
      (all_set, boot_trace env @ fst (exec_body env names 0 body),
       snd (exec_body env names 0 body))"
    using assms by (simp add: try_block_def boot_ok_def boot_trace_def all_set_def ls)
  then show ?thesis
    by (simp add: run_test_def Let_def split: option.splits)
qed

lemma boot_ok_env_ok [simp]: "boot_ok env_ok"
  by (simp add: boot_ok_def env_ok_def load_states_def swallow_api_error_def)

lemma boot_trace_env_ok [simp]:
  "boot_trace env_ok =
     [(PlaywrightStart, None), (ChromiumLaunch, None), (NewContext, None),
      (SetDefaultTimeout 5000, None), (NewPage, None),
      (PageGoto ''http://localhost:3000'' ''commit'' 10000, None),
      (WaitForLoadState ''domcontentloaded'' 3000, None),
      (FrameWaitForLoadState 0 ''domcontentloaded'' 3000, None)]"
  by (simp add: boot_trace_def env_ok_def load_states_def swallow_api_error_def)

lemma teardown_env_ok [simp]:
  "teardown env_ok all_set =
     ([(ContextClose, None), (BrowserClose, None), (PlaywrightStop, None)], None)"
  by (simp add: teardown_def env_ok_def all_set_def)

lemma boot_env_click_fails [simp]:
  "boot_ok (env_click_fails i f)"
  "boot_trace (env_click_fails i f) = boot_trace env_ok"
  "teardown (env_click_fails i f) v = teardown env_ok v"
  by (simp_all add: boot_ok_def boot_trace_def teardown_def env_click_fails_def env_ok_def
      load_states_def swallow_api_error_def)

lemma boot_env_goto_fails [simp]:
  "boot_ok (env_goto_fails i f)"
  "boot_trace (env_goto_fails i f) = boot_trace env_ok"
  "teardown (env_goto_fails i f) v = teardown env_ok v"
  by (simp_all add: boot_ok_def boot_trace_def teardown_def env_goto_fails_def env_ok_def
      load_states_def swallow_api_error_def)

lemma env_ok_fields [simp]:
  "goto_r env_ok i = None" "wait_r env_ok i = None" "click_r env_ok i = None"
  "visible_r env_ok i = None" "sleep_r env_ok i = None"
  by (simp_all add: env_ok_def)

lemma env_click_fails_fields [simp]:
  "goto_r (env_click_fails i f) j = None" "wait_r (env_click_fails i f) j = None"
  "click_r (env_click_fails i f) j = (if j = i then Some f else None)"
  "visible_r (env_click_fails i f) j = None" "sleep_r (env_click_fails i f) j = None"
  by (simp_all add: env_click_fails_def env_ok_def)

lemma env_goto_fails_fields [simp]:
  "goto_r (env_goto_fails i f) j = (if j = i then Some f else None)"
  "wait_r (env_goto_fails i f) j = None" "click_r (env_goto_fails i f) j = None"
  "visible_r (env_goto_fails i f) j = None" "sleep_r (env_goto_fails i f) j = None"
  by (simp_all add: env_goto_fails_def env_ok_def)

section \<open>A click that fails\<close>

text \<open>
  C2, as the code has it. No click of a script stands in a \<^verbatim>\<open>try\<close> of its own. When the
  statements before a click step returned and the click raises \<open>f\<close>, the run issues no call
  of any later statement: the trace ends with the failed click and the calls of the
  \<^verbatim>\<open>finally\<close> block, the same whatever statements \<open>post\<close> follow, and \<open>f\<close> leaves
  \<^verbatim>\<open>run_test\<close> (unless a call of the \<^verbatim>\<open>finally\<close> block raises in its turn).
\<close>

theorem click_failure_aborts_script:
  assumes "boot_ok env"
    and "exec_body env names 0 pre = (tr, None)"
    and "wait_r env (length pre) = None"
    and "click_r env (length pre) = Some f"
  shows "run_test env names (pre @ Click sel g t # post) =
     (boot_trace env @ tr @ [(WaitForTimeout g, None), (LocatorClick sel t, Some f)]
        @ fst (teardown env all_set),
      case snd (teardown env all_set) of
        Some e \<Rightarrow> Some e
      | None \<Rightarrow> Some (External f))"
proof -
  have "exec_body env names 0 (pre @ Click sel g t # post) =
      (tr @ [(WaitForTimeout g, None), (LocatorClick sel t, Some f)], Some (External f))"
    using assms(2-4) by (simp add: exec_body_append)
  then show ?thesis
    by (simp add: run_test_boot_ok [OF assms(1)] split: option.splits)
qed

theorem click_failure_aborts_script_witness:
  "run_test (env_click_fails 2 PwError) script_names (steps TC017) =
     ([(PlaywrightStart, None), (ChromiumLaunch, None), (NewContext, None),
       (SetDefaultTimeout 5000, None), (NewPage, None),
       (PageGoto ''http://localhost:3000'' ''commit'' 10000, None),
       (WaitForLoadState ''domcontentloaded'' 3000, None),
       (FrameWaitForLoadState 0 ''domcontentloaded'' 3000, None),
       (PageGoto ''http://localhost:3000'' ''commit'' 10000, None),
       (WaitForTimeout 3000, None),
       (LocatorClick ''xpath=html/body/div/div/div[1]/div[2]/div[1]/div/div'' 5000, None),
       (WaitForTimeout 3000, None),
       (LocatorClick ''xpath=html/body/div/div/div[1]/div[2]/div[1]/div/div'' 5000,
        Some PwError),
       (ContextClose, None), (BrowserClose, None), (PlaywrightStop, None)],
      Some (External PwError))"
proof -
  have b: "boot_ok (env_click_fails 2 PwError)"
    by simp
  have p: "exec_body (env_click_fails 2 PwError) script_names 0 (take 2 (steps TC017)) =
      ([(PageGoto ''http://localhost:3000'' ''commit'' 10000, None),
        (WaitForTimeout 3000, None),
        (LocatorClick ''xpath=html/body/div/div/div[1]/div[2]/div[1]/div/div'' 5000, None)],
       None)"
    by (simp add: TC017_steps_def)
  have w: "wait_r (env_click_fails 2 PwError) (length (take 2 (steps TC017))) = None"
    by (simp add: TC017_steps_def)
  have c: "click_r (env_click_fails 2 PwError) (length (take 2 (steps TC017))) = Some PwError"
    by (simp add: TC017_steps_def)
  have s: "steps TC017 = take 2 (steps TC017)
      @ Click ''xpath=html/body/div/div/div[1]/div[2]/div[1]/div/div'' 3000 5000
      # drop 3 (steps TC017)"
    by (simp add: TC017_steps_def)
  show ?thesis
    using click_failure_aborts_script [OF b p w c,
        of "''xpath=html/body/div/div/div[1]/div[2]/div[1]/div/div''" 3000 5000
          "drop 3 (steps TC017)"]
    unfolding s [symmetric] by simp
qed

text \<open>
  The claim as the specification words it (a failed click is swallowed and the next step
  runs) fails on \<^verbatim>\<open>TC002\<close> when its first click times out: the second click is never
  issued.
\<close>

theorem click_failure_not_swallowed:
  "run_script (env_click_fails 1 PwTimeoutError) TC002 =
     ([(PlaywrightStart, None), (ChromiumLaunch, None), (NewContext, None),
       (SetDefaultTimeout 5000, None), (NewPage, None),
       (PageGoto ''http://localhost:3000'' ''commit'' 10000, None),
       (WaitForLoadState ''domcontentloaded'' 3000, None),
       (FrameWaitForLoadState 0 ''domcontentloaded'' 3000, None),
       (PageGoto ''http://localhost:3000'' ''commit'' 10000, None),
       (WaitForTimeout 3000, None),
       (LocatorClick ''xpath=html/body/div/div/div[1]/div[2]/div[1]/div/div'' 5000,
        Some PwTimeoutError),
       (ContextClose, None), (BrowserClose, None), (PlaywrightStop, None)],
      Some (External PwTimeoutError))"
  by (simp add: run_script_def parses_def run_test_boot_ok TC002_steps_def)

section \<open>A navigation that fails\<close>

lemma goto_steps_bounded: "list_all goto_stmt_bounded (steps s)"
  by (cases s)
    (simp_all add: goto_stmt_bounded_def TC002_steps_def TC004_steps_def TC006_steps_def
      TC007_steps_def TC008_steps_def TC009_steps_def TC010_steps_def TC012_steps_def
      TC013_steps_def TC014_steps_def TC015_steps_def TC016_steps_def TC017_steps_def)

lemma first_step_is_goto:
  "take 1 (steps s) = [Goto ''http://localhost:3000'' ''commit'' 10000]"
  by (cases s)
    (simp_all add: TC002_steps_def TC004_steps_def TC006_steps_def
      TC007_steps_def TC008_steps_def TC009_steps_def TC010_steps_def TC012_steps_def
      TC013_steps_def TC014_steps_def TC015_steps_def TC016_steps_def TC017_steps_def)

lemma run_test_first_goto_fails:
  assumes "start_r env = None" "launch_r env = None" "new_context_r env = None"
    "new_page_r env = None" "first_goto_r env = Some f"
  shows "run_test env names body =
     ([(PlaywrightStart, None), (ChromiumLaunch, None), (NewContext, None),
       (SetDefaultTimeout 5000, None), (NewPage, None),
       (PageGoto ''http://localhost:3000'' ''commit'' 10000, Some f)]
        @ fst (teardown env all_set),
      case snd (teardown env all_set) of
        Some e \<Rightarrow> Some e
      | None \<Rightarrow> Some (External f))"
  using assms
  by (simp add: run_test_def try_block_def all_set_def Let_def split: option.splits)

text \<open>
  C9, as the code has it. Every \<^verbatim>\<open>page.goto\<close> of every script is called with
  \<^verbatim>\<open>wait_until="commit"\<close> and \<^verbatim>\<open>timeout=10000\<close>; every script starts with one, and
  \<^verbatim>\<open>TC002\<close> has one in mid-script, after its sixth click. No navigation stands in a
  \<^verbatim>\<open>try\<close> of its own and none returns an outcome value: when a navigation raises \<open>f\<close>
  (the one of line 32, or one of the statements after the statements \<open>pre\<close> returned), no
  later statement runs, the \<^verbatim>\<open>finally\<close> block runs, and \<open>f\<close> leaves \<^verbatim>\<open>run_test\<close>
  (unless a call of the \<^verbatim>\<open>finally\<close> block raises in its turn).
\<close>

theorem goto_failure_aborts_script:
  "list_all goto_stmt_bounded (steps s)
   \<and> take 1 (steps s) = [Goto ''http://localhost:3000'' ''commit'' 10000]
   \<and> steps TC002 ! 6 = Click ''xpath=html/body/div/div/div[1]/div[2]/button'' 3000 5000
   \<and> steps TC002 ! 7 = Goto ''http://localhost:3000'' ''commit'' 10000
   \<and> (start_r env = None \<and> launch_r env = None \<and> new_context_r env = None
        \<and> new_page_r env = None \<and> first_goto_r env = Some f \<longrightarrow>
      run_test env names body =
        ([(PlaywrightStart, None), (ChromiumLaunch, None), (NewContext, None),
          (SetDefaultTimeout 5000, None), (NewPage, None),
          (PageGoto ''http://localhost:3000'' ''commit'' 10000, Some f)]
           @ fst (teardown env all_set),
         case snd (teardown env all_set) of
           Some e \<Rightarrow> Some e
         | None \<Rightarrow> Some (External f)))
   \<and> (boot_ok env \<and> exec_body env names 0 pre = (tr, None)
        \<and> goto_r env (length pre) = Some f \<longrightarrow>
      run_test env names (pre @ Goto url wu t # post) =
        (boot_trace env @ tr @ [(PageGoto url wu t, Some f)] @ fst (teardown env all_set),
         case snd (teardown env all_set) of
           Some e \<Rightarrow> Some e
         | None \<Rightarrow> Some (External f)))"
proof (intro conjI impI)
  show "list_all goto_stmt_bounded (steps s)"
    by (rule goto_steps_bounded)
  show "take 1 (steps s) = [Goto ''http://localhost:3000'' ''commit'' 10000]"
    by (rule first_step_is_goto)
  show "steps TC002 ! 6 = Click ''xpath=html/body/div/div/div[1]/div[2]/button'' 3000 5000"
    by (simp add: TC002_steps_def)
  show "steps TC002 ! 7 = Goto ''http://localhost:3000'' ''commit'' 10000"
    by (simp add: TC002_steps_def)
next
  assume "start_r env = None \<and> launch_r env = None \<and> new_context_r env = None
        \<and> new_page_r env = None \<and> first_goto_r env = Some f"
  then show "run_test env names body =
        ([(PlaywrightStart, None), (ChromiumLaunch, None), (NewContext, None),
          (SetDefaultTimeout 5000, None), (NewPage, None),
          (PageGoto ''http://localhost:3000'' ''commit'' 10000, Some f)]
           @ fst (teardown env all_set),
         case snd (teardown env all_set) of
           Some e \<Rightarrow> Some e
         | None \<Rightarrow> Some (External f))"
    by (simp add: run_test_first_goto_fails)
next
  assume a: "boot_ok env \<and> exec_body env names 0 pre = (tr, None)
        \<and> goto_r env (length pre) = Some f"
  then have "exec_body env names 0 (pre @ Goto url wu t # post) =
      (tr @ [(PageGoto url wu t, Some f)], Some (External f))"
    by (simp add: exec_body_append)
  with a show "run_test env names (pre @ Goto url wu t # post) =
        (boot_trace env @ tr @ [(PageGoto url wu t, Some f)] @ fst (teardown env all_set),
         case snd (teardown env all_set) of
           Some e \<Rightarrow> Some e
         | None \<Rightarrow> Some (External f))"
    by (simp add: run_test_boot_ok split: option.splits)
qed

theorem goto_failure_aborts_script_witness:
  "run_test (env_goto_fails 4 PwTimeoutError) script_names (steps TC017) =
     ([(PlaywrightStart, None), (ChromiumLaunch, None), (NewContext, None),
       (SetDefaultTimeout 5000, None), (NewPage, None),
       (PageGoto ''http://localhost:3000'' ''commit'' 10000, None),
       (WaitForLoadState ''domcontentloaded'' 3000, None),
       (FrameWaitForLoadState 0 ''domcontentloaded'' 3000, None),
       (PageGoto ''http://localhost:3000'' ''commit'' 10000, None),
       (WaitForTimeout 3000, None),
       (LocatorClick ''xpath=html/body/div/div/div[1]/div[2]/div[1]/div/div'' 5000, None),
       (WaitForTimeout 3000, None),
       (LocatorClick ''xpath=html/body/div/div/div[1]/div[2]/div[1]/div/div'' 5000, None),
       (WaitForTimeout 3000, None),
       (LocatorClick ''xpath=html/body/div[1]/div/div[1]/div[1]/canvas'' 5000, None),
       (PageGoto ''http://localhost:3000/'' ''commit'' 10000, Some PwTimeoutError),
       (ContextClose, None), (BrowserClose, None), (PlaywrightStop, None)],
      Some (External PwTimeoutError))"
proof -
  have p: "exec_body (env_goto_fails 4 PwTimeoutError) script_names 0 (take 4 (steps TC017)) =
      ([(PageGoto ''http://localhost:3000'' ''commit'' 10000, None),
        (WaitForTimeout 3000, None),
        (LocatorClick ''xpath=html/body/div/div/div[1]/div[2]/div[1]/div/div'' 5000, None),
        (WaitForTimeout 3000, None),
        (LocatorClick ''xpath=html/body/div/div/div[1]/div[2]/div[1]/div/div'' 5000, None),
        (WaitForTimeout 3000, None),
        (LocatorClick ''xpath=html/body/div[1]/div/div[1]/div[1]/canvas'' 5000, None)],
       None)"
    by (simp add: TC017_steps_def)
  have g: "goto_r (env_goto_fails 4 PwTimeoutError) (length (take 4 (steps TC017)))
      = Some PwTimeoutError"
    by (simp add: TC017_steps_def)
  have s: "steps TC017 = take 4 (steps TC017)
      @ Goto ''http://localhost:3000/'' ''commit'' 10000 # drop 5 (steps TC017)"
    by (simp add: TC017_steps_def)
  show ?thesis
    using goto_failure_aborts_script [of TC017 "env_goto_fails 4 PwTimeoutError"
        PwTimeoutError script_names "[]" "take 4 (steps TC017)" _
        "''http://localhost:3000/''" "''commit''" 10000 "drop 5 (steps TC017)"] p g
    unfolding s [symmetric] by simp
qed

text \<open>
  The claim as the specification words it (a navigation yields an outcome and never
  raises) fails on \<^verbatim>\<open>TC010\<close> when the navigation of line 32 times out: the script ends
  with the \<^verbatim>\<open>TimeoutError\<close>, and no statement of its own has run.
\<close>

theorem goto_timeout_is_raised:
  "run_script (env_first_goto_fails PwTimeoutError) TC010 =
     ([(PlaywrightStart, None), (ChromiumLaunch, None), (NewContext, None),
       (SetDefaultTimeout 5000, None), (NewPage, None),
       (PageGoto ''http://localhost:3000'' ''commit'' 10000, Some PwTimeoutError),
       (ContextClose, None), (BrowserClose, None), (PlaywrightStop, None)],
      Some (External PwTimeoutError))"
proof -
  have "parses (steps TC010)"
    by (simp add: parses_def TC010_steps_def)
  moreover have "teardown (env_first_goto_fails PwTimeoutError) all_set =
      ([(ContextClose, None), (BrowserClose, None), (PlaywrightStop, None)], None)"
    by (simp add: teardown_def env_first_goto_fails_def env_ok_def all_set_def)
  ultimately show ?thesis
    by (simp add: run_script_def run_test_first_goto_fails env_first_goto_fails_def env_ok_def)
qed

section \<open>The final assertion\<close>

lemma expect_unbound: "''expect'' \<notin> set script_names"
  by (simp add: script_names_def run_test_locals_def module_names_def)

lemma setup_steps_split:
  assumes "list_ex is_assert body"
  shows "\<exists>sel t msg post. body = setup_steps body @ ExpectVisible sel t msg # post"
proof -
  let ?P = "\<lambda>st. \<not> is_assert st"
  from assms have ne: "dropWhile ?P body \<noteq> []"
    by (auto simp: list_ex_iff)
  then obtain st post where d: "dropWhile ?P body = st # post"
    by (cases "dropWhile ?P body") auto
  from ne have "\<not> ?P (hd (dropWhile ?P body))"
    by (rule hd_dropWhile)
  with d have "is_assert st"
    by simp
  then obtain sel t msg where "st = ExpectVisible sel t msg"
    by (cases st) auto
  with d have "body = setup_steps body @ ExpectVisible sel t msg # post"
    using takeWhile_dropWhile_id [of ?P body] by (simp add: setup_steps_def)
  then show ?thesis
    by blast
qed

lemma exec_body_unbound_expect:
  assumes "''expect'' \<notin> set names"
    and "list_ex is_assert body"
    and "snd (exec_body env names 0 (setup_steps body)) = None"
  shows "exec_body env names 0 body =
     (fst (exec_body env names 0 (setup_steps body)), Some (NameError ''expect''))"
proof -
  obtain sel t msg post where
    b: "body = setup_steps body @ ExpectVisible sel t msg # post"
    using setup_steps_split [OF assms(2)] by blast
  obtain tr where tr: "exec_body env names 0 (setup_steps body) = (tr, None)"
    using assms(3) by (cases "exec_body env names 0 (setup_steps body)") simp
  have "exec_body env names 0 (setup_steps body @ ExpectVisible sel t msg # post) =
      (tr, Some (NameError ''expect''))"
    using assms(1) by (simp add: exec_body_append tr)
  with b tr show ?thesis
    by simp
qed

lemma teardown_external: "snd (teardown env v) \<noteq> Some (AssertionError m)"
  by (auto simp: teardown_def then_do_def ext_def split: option.splits)

lemma load_states_external: "snd (frame_loop env ks) \<noteq> Some (AssertionError m)"
  by (induction ks) (auto simp: then_do_def swallow_api_error_def ext_def split: option.splits)

lemma try_block_no_assertion_error:
  assumes "''expect'' \<notin> set names"
  shows "snd (snd (try_block env names body)) \<noteq> Some (AssertionError m)"
  using exec_body_no_assertion_error [OF assms, of env 0 body m]
    load_states_external [of env "[0..<frames env]" m]
  by (auto simp: try_block_def load_states_def snd_then_do swallow_api_error_def ext_def
      split: option.splits exn.splits)

lemma run_script_no_assertion_error:
  "snd (run_script env s) \<noteq> Some (AssertionError m)"
proof (cases "parses (steps s)")
  case False
  then show ?thesis by (simp add: run_script_def)
next
  case True
  obtain v a where va: "try_block env script_names (steps s) = (v, a)"
    by (cases "try_block env script_names (steps s)")
  have "snd a \<noteq> Some (AssertionError m)"
    using try_block_no_assertion_error [OF expect_unbound, of env "steps s" m] va by simp
  with teardown_external [of env v m] True va show ?thesis
    by (auto simp: run_script_def run_test_def Let_def split: option.splits)
qed

lemma asserting_scripts:
  "s = TC004 \<or> s = TC006 \<or> s = TC010 \<or> s = TC015 \<or> s = TC016 \<or> s = TC017 \<Longrightarrow>
   parses (steps s) \<and> list_ex is_assert (steps s)"
  by (elim disjE)
    (simp_all add: parses_def TC004_steps_def TC006_steps_def TC010_steps_def
      TC015_steps_def TC016_steps_def TC017_steps_def)

text \<open>
  C4. No script binds the name \<^verbatim>\<open>expect\<close>. In each of \<^verbatim>\<open>TC004\<close>, \<^verbatim>\<open>TC006\<close>,
  \<^verbatim>\<open>TC010\<close>, \<^verbatim>\<open>TC015\<close>, \<^verbatim>\<open>TC016\<close> and \<^verbatim>\<open>TC017\<close>, whenever the session came up and
  the statements before the assertion returned, so that the assertion is reached, its
  evaluation raises \<^verbatim>\<open>NameError\<close> before any visibility check is called; the handler for
  \<^verbatim>\<open>AssertionError\<close> does not catch it, the calls of the \<^verbatim>\<open>finally\<close> block follow, and
  the \<^verbatim>\<open>NameError\<close> leaves \<^verbatim>\<open>run_test\<close> (unless a call of the \<^verbatim>\<open>finally\<close> block
  raises in its turn). The script's own \<^verbatim>\<open>AssertionError\<close> with its message is the
  result of no run.
\<close>

theorem unbound_expect_raises_NameError:
  assumes "s = TC004 \<or> s = TC006 \<or> s = TC010 \<or> s = TC015 \<or> s = TC016 \<or> s = TC017"
    and "boot_ok env"
    and "snd (exec_body env script_names 0 (setup_steps (steps s))) = None"
  shows "''expect'' \<notin> set script_names
    \<and> run_script env s =
        (boot_trace env @ fst (exec_body env script_names 0 (setup_steps (steps s)))
           @ fst (teardown env all_set),
         case snd (teardown env all_set) of
           Some e \<Rightarrow> Some e
         | None \<Rightarrow> Some (NameError ''expect''))
    \<and> (\<forall>m. snd (run_script env s) \<noteq> Some (AssertionError m))"
proof -
  from asserting_scripts [OF assms(1)]
  have p: "parses (steps s)" and a: "list_ex is_assert (steps s)"
    by simp_all
  have "exec_body env script_names 0 (steps s) =
      (fst (exec_body env script_names 0 (setup_steps (steps s))), Some (NameError ''expect''))"
    by (rule exec_body_unbound_expect [OF expect_unbound a assms(3)])
  then have "run_script env s =
        (boot_trace env @ fst (exec_body env script_names 0 (setup_steps (steps s)))
           @ fst (teardown env all_set),
         case snd (teardown env all_set) of
           Some e \<Rightarrow> Some e
         | None \<Rightarrow> Some (NameError ''expect''))"
    by (simp add: run_script_def p run_test_boot_ok [OF assms(2)] split: option.splits)
  with expect_unbound run_script_no_assertion_error show ?thesis
    by blast
qed

theorem unbound_expect_raises_NameError_witness:
  "run_script env_ok TC017 =
     ([(PlaywrightStart, None), (ChromiumLaunch, None), (NewContext, None),
       (SetDefaultTimeout 5000, None), (NewPage, None),
       (PageGoto ''http://localhost:3000'' ''commit'' 10000, None),
       (WaitForLoadState ''domcontentloaded'' 3000, None),
       (FrameWaitForLoadState 0 ''domcontentloaded'' 3000, None),
       (PageGoto ''http://localhost:3000'' ''commit'' 10000, None),
       (WaitForTimeout 3000, None),
       (LocatorClick ''xpath=html/body/div/div/div[1]/div[2]/div[1]/div/div'' 5000, None),
       (WaitForTimeout 3000, None),
       (LocatorClick ''xpath=html/body/div/div/div[1]/div[2]/div[1]/div/div'' 5000, None),
       (WaitForTimeout 3000, None),
       (LocatorClick ''xpath=html/body/div[1]/div/div[1]/div[1]/canvas'' 5000, None),
       (PageGoto ''http://localhost:3000/'' ''commit'' 10000, None),
       (PageGoto ''http://localhost:3000/'' ''commit'' 10000, None),
       (ContextClose, None), (BrowserClose, None), (PlaywrightStop, None)],
      Some (NameError ''expect''))"
proof -
  have e: "exec_body env_ok script_names 0 (setup_steps (steps TC017)) =
      ([(PageGoto ''http://localhost:3000'' ''commit'' 10000, None),
        (WaitForTimeout 3000, None),
        (LocatorClick ''xpath=html/body/div/div/div[1]/div[2]/div[1]/div/div'' 5000, None),
        (WaitForTimeout 3000, None),
        (LocatorClick ''xpath=html/body/div/div/div[1]/div[2]/div[1]/div/div'' 5000, None),
        (WaitForTimeout 3000, None),
        (LocatorClick ''xpath=html/body/div[1]/div/div[1]/div[1]/canvas'' 5000, None),
        (PageGoto ''http://localhost:3000/'' ''commit'' 10000, None),
        (PageGoto ''http://localhost:3000/'' ''commit'' 10000, None)],
       None)"
    by (simp add: setup_steps_def TC017_steps_def)
  show ?thesis
    using unbound_expect_raises_NameError [of TC017 env_ok] e by simp
qed

section \<open>Teardown\<close>

lemma stmt_calls_no_session:
  "list_all (\<lambda>st. list_all (\<lambda>c. \<not> is_session_call c) (stmt_calls st)) body"
proof (induction body)
  case Nil
  show ?case by simp
next
  case (Cons st rest)
  have "list_all (\<lambda>c. \<not> is_session_call c) (stmt_calls st)"
    by (cases st) (simp_all add: is_session_call_def is_close_call_def)
  with Cons show ?case by simp
qed

lemma frame_loop_no_session:
  "list_all (\<lambda>x. \<not> is_session_call (fst x)) (fst (frame_loop env ks))"
  by (induction ks)
    (simp_all add: then_do_all ext_def is_session_call_def is_close_call_def)

lemma load_states_no_session:
  "list_all (\<lambda>x. \<not> is_session_call (fst x)) (fst (load_states env))"
  unfolding load_states_def
proof (rule then_do_all)
  show "list_all (\<lambda>x. \<not> is_session_call (fst x))
      (fst (swallow_api_error
        (ext (WaitForLoadState ''domcontentloaded'' 3000) (load_state_r env))))"
    by (simp add: ext_def is_session_call_def is_close_call_def)
  show "list_all (\<lambda>x. \<not> is_session_call (fst x)) (fst (frame_loop env [0..<frames env]))"
    by (rule frame_loop_no_session)
qed

lemma after_context_no_session:
  "list_all (\<lambda>x. \<not> is_session_call (fst x))
     (fst (then_do (ext (SetDefaultTimeout 5000) None)
          (then_do (ext NewPage (new_page_r env))
          (then_do (ext (PageGoto ''http://localhost:3000'' ''commit'' 10000) (first_goto_r env))
          (then_do (load_states env) (exec_body env names 0 body))))))"
  by (intro then_do_all load_states_no_session exec_body_all stmt_calls_no_session)
    (simp_all add: ext_def is_session_call_def is_close_call_def)

lemma no_session_facts:
  assumes "list_all (\<lambda>x. \<not> is_session_call (fst x)) tr"
  shows "(NewContext, None) \<notin> set tr" "(ChromiumLaunch, None) \<notin> set tr"
    "(PlaywrightStart, None) \<notin> set tr" "closes tr = []"
  using assms
  by (auto simp: list_all_iff closes_def filter_empty_conv is_session_call_def
      is_close_call_def split: call.splits)

lemma closes_append [simp]: "closes (a @ b) = closes a @ closes b"
  by (simp add: closes_def)

lemma try_block_session:
  assumes "try_block env names body = (v, a)"
  shows "closes (fst a) = []
    \<and> ctx v = ((NewContext, None) \<in> set (fst a))
    \<and> browser v = ((ChromiumLaunch, None) \<in> set (fst a))
    \<and> pw v = ((PlaywrightStart, None) \<in> set (fst a))
    \<and> (ctx v \<longrightarrow> browser v) \<and> (browser v \<longrightarrow> pw v)"
proof (cases "start_r env")
  case (Some f)
  with assms show ?thesis
    by (auto simp: try_block_def closes_def is_close_call_def)
next
  case s: None
  show ?thesis
  proof (cases "launch_r env")
    case (Some f)
    with assms s show ?thesis
      by (auto simp: try_block_def closes_def is_close_call_def)
  next
    case l: None
    show ?thesis
    proof (cases "new_context_r env")
      case (Some f)
      with assms s l show ?thesis
        by (auto simp: try_block_def closes_def is_close_call_def)
    next
      case c: None
      let ?rest = "fst (then_do (ext (SetDefaultTimeout 5000) None)
          (then_do (ext NewPage (new_page_r env))
          (then_do (ext (PageGoto ''http://localhost:3000'' ''commit'' 10000) (first_goto_r env))
          (then_do (load_states env) (exec_body env names 0 body)))))"
      have a: "fst a = [(PlaywrightStart, None), (ChromiumLaunch, None), (NewContext, None)]
          @ ?rest"
        and v: "v = \<lparr>pw = True, browser = True, ctx = True\<rparr>"
        using assms s l c
        by (auto simp: try_block_def simp del: then_do_None then_do_Some ext_Some
            simp add: then_do_def [of "([(PlaywrightStart, None)], None)"]
              then_do_def [of "([(ChromiumLaunch, None)], None)"]
              then_do_def [of "([(NewContext, None)], None)"])
      note n = no_session_facts [OF after_context_no_session [of env names body]]
      show ?thesis
        unfolding a v using n(4)
        by (simp add: closes_def is_close_call_def)
    qed
  qed
qed

lemma closes_as_entries: "closes tr = map fst (release_entries tr)"
  by (simp add: closes_def release_entries_def filter_map o_def)

lemma released_as_entries:
  "released tr = map fst (filter (\<lambda>x. snd x = None) (release_entries tr))"
  by (simp add: released_def release_entries_def)

lemma release_entries_append [simp]:
  "release_entries (a @ b) = release_entries a @ release_entries b"
  by (simp add: release_entries_def)

lemma release_run_fst: "map fst (release_run env cs) = take (length (release_run env cs)) cs"
  by (induction cs) simp_all

lemma release_run_length: "length (release_run env cs) \<le> length cs"
  by (induction cs) simp_all

lemma release_run_all_return:
  "context_close_r env = None \<Longrightarrow> browser_close_r env = None \<Longrightarrow> stop_r env = None \<Longrightarrow>
   release_run env cs = map (\<lambda>c. (c, None)) cs"
  by (induction cs) (simp_all add: release_result_def split: call.splits)

lemma teardown_entries: "list_all (\<lambda>x. is_close_call (fst x)) (fst (teardown env v))"
  by (auto simp: teardown_def then_do_def ext_def is_close_call_def split: option.splits)

lemma teardown_release_run:
  "fst (teardown env v) =
     release_run env
       ((if ctx v then [ContextClose] else []) @ (if browser v then [BrowserClose] else [])
        @ (if pw v then [PlaywrightStop] else []))"
  by (auto simp: teardown_def then_do_def ext_def release_result_def split: option.splits)

lemma teardown_raise_last:
  "(c, Some f) \<in> set (fst (teardown env v)) \<Longrightarrow>
   last (fst (teardown env v)) = (c, Some f) \<and> snd (teardown env v) = Some (External f)"
  by (auto simp: teardown_def then_do_def ext_def split: option.splits if_splits)

text \<open>
  The release calls of any run of \<^verbatim>\<open>run_test\<close>, whatever statements and names it runs
  with and however its \<^verbatim>\<open>try\<close> block ended.
\<close>

lemma run_test_release:
  "release_entries (fst (run_test env names body))
     = release_run env (due_closes (fst (run_test env names body)))"
  "list_all (\<lambda>x. is_close_call (fst x))
     (dropWhile (\<lambda>x. \<not> is_close_call (fst x)) (fst (run_test env names body)))"
  "(c, Some f) \<in> set (release_entries (fst (run_test env names body))) \<Longrightarrow>
     last (fst (run_test env names body)) = (c, Some f)
     \<and> snd (run_test env names body) = Some (External f)"
  "(NewContext, None) \<in> set (fst (run_test env names body)) \<Longrightarrow>
     (ChromiumLaunch, None) \<in> set (fst (run_test env names body))"
  "(ChromiumLaunch, None) \<in> set (fst (run_test env names body)) \<Longrightarrow>
     (PlaywrightStart, None) \<in> set (fst (run_test env names body))"
proof -
  obtain v a where va: "try_block env names body = (v, a)"
    by (cases "try_block env names body")
  let ?td = "teardown env v"
  have tr: "fst (run_test env names body) = fst a @ fst ?td"
    and ex: "snd (run_test env names body)
      = (case snd ?td of Some e \<Rightarrow> Some e | None \<Rightarrow> snd a)"
    using va by (simp_all add: run_test_def Let_def)
  note ts = try_block_session [OF va]
  have na: "list_all (\<lambda>x. \<not> is_close_call (fst x)) (fst a)"
    using ts by (simp add: closes_def filter_empty_conv list_all_iff)
  then have ra: "release_entries (fst a) = []"
    by (simp add: release_entries_def filter_empty_conv list_all_iff)
  note td_all = teardown_entries [of env v]
  then have rt: "release_entries (fst ?td) = fst ?td"
    by (simp add: release_entries_def list_all_iff)
  have td_mem: "(NewContext, None) \<notin> set (fst ?td)" "(ChromiumLaunch, None) \<notin> set (fst ?td)"
    "(PlaywrightStart, None) \<notin> set (fst ?td)"
    using td_all by (auto simp: list_all_iff is_close_call_def)
  have due: "due_closes (fst a @ fst ?td) =
      (if ctx v then [ContextClose] else []) @ (if browser v then [BrowserClose] else [])
      @ (if pw v then [PlaywrightStop] else [])"
    using ts td_mem by (simp add: due_closes_def)
  have "release_entries (fst (run_test env names body)) = fst ?td"
    by (simp add: tr ra rt)
  also have "\<dots> = release_run env
       ((if ctx v then [ContextClose] else []) @ (if browser v then [BrowserClose] else [])
        @ (if pw v then [PlaywrightStop] else []))"
    by (rule teardown_release_run)
  also have "\<dots> = release_run env (due_closes (fst (run_test env names body)))"
    by (simp only: tr due)
  finally show "release_entries (fst (run_test env names body))
     = release_run env (due_closes (fst (run_test env names body)))" .
  have dw: "dropWhile (\<lambda>x. \<not> is_close_call (fst x)) (fst a @ fst ?td) =
      dropWhile (\<lambda>x. \<not> is_close_call (fst x)) (fst ?td)"
    using na by (simp add: list_all_iff)
  show "list_all (\<lambda>x. is_close_call (fst x))
     (dropWhile (\<lambda>x. \<not> is_close_call (fst x)) (fst (run_test env names body)))"
    unfolding tr dw using td_all by (auto simp: list_all_iff dest: set_dropWhileD)
  show "(NewContext, None) \<in> set (fst (run_test env names body)) \<Longrightarrow>
     (ChromiumLaunch, None) \<in> set (fst (run_test env names body))"
    using ts td_mem by (auto simp: tr)
  show "(ChromiumLaunch, None) \<in> set (fst (run_test env names body)) \<Longrightarrow>
     (PlaywrightStart, None) \<in> set (fst (run_test env names body))"
    using ts td_mem by (auto simp: tr)
  show "last (fst (run_test env names body)) = (c, Some f)
     \<and> snd (run_test env names body) = Some (External f)"
    if m: "(c, Some f) \<in> set (release_entries (fst (run_test env names body)))"
  proof -
    from m have mt: "(c, Some f) \<in> set (fst ?td)"
      by (simp add: tr ra rt)
    then have "fst ?td \<noteq> []"
      by auto
    with teardown_raise_last [OF mt] show ?thesis
      by (simp add: tr ex)
  qed
qed

lemma run_script_release:
  "release_entries (fst (run_script env s))
     = release_run env (due_closes (fst (run_script env s)))"
  "list_all (\<lambda>x. is_close_call (fst x))
     (dropWhile (\<lambda>x. \<not> is_close_call (fst x)) (fst (run_script env s)))"
  "(c, Some f) \<in> set (release_entries (fst (run_script env s))) \<Longrightarrow>
     last (fst (run_script env s)) = (c, Some f)
     \<and> snd (run_script env s) = Some (External f)"
  "(NewContext, None) \<in> set (fst (run_script env s)) \<Longrightarrow>
     (ChromiumLaunch, None) \<in> set (fst (run_script env s))"
  "(ChromiumLaunch, None) \<in> set (fst (run_script env s)) \<Longrightarrow>
     (PlaywrightStart, None) \<in> set (fst (run_script env s))"
proof -
  let ?out = "run_script env s"
  have "release_entries (fst ?out) = release_run env (due_closes (fst ?out))
    \<and> list_all (\<lambda>x. is_close_call (fst x))
        (dropWhile (\<lambda>x. \<not> is_close_call (fst x)) (fst ?out))
    \<and> ((c, Some f) \<in> set (release_entries (fst ?out)) \<longrightarrow>
        last (fst ?out) = (c, Some f) \<and> snd ?out = Some (External f))
    \<and> ((NewContext, None) \<in> set (fst ?out) \<longrightarrow> (ChromiumLaunch, None) \<in> set (fst ?out))
    \<and> ((ChromiumLaunch, None) \<in> set (fst ?out) \<longrightarrow> (PlaywrightStart, None) \<in> set (fst ?out))"
  proof (cases "parses (steps s)")
    case True
    then have eq: "run_script env s = run_test env script_names (steps s)"
      by (simp add: run_script_def)
    show ?thesis
      unfolding eq
      using run_test_release [where env = env and names = script_names and body = "steps s"]
      by blast
  next
    case False
    then have eq: "run_script env s = ([], Some SyntaxError)"
      by (simp add: run_script_def)
    show ?thesis
      unfolding eq by (simp add: release_entries_def due_closes_def)
  qed
  then show
    "release_entries (fst (run_script env s))
       = release_run env (due_closes (fst (run_script env s)))"
    "list_all (\<lambda>x. is_close_call (fst x))
       (dropWhile (\<lambda>x. \<not> is_close_call (fst x)) (fst (run_script env s)))"
    "(c, Some f) \<in> set (release_entries (fst (run_script env s))) \<Longrightarrow>
       last (fst (run_script env s)) = (c, Some f)
       \<and> snd (run_script env s) = Some (External f)"
    "(NewContext, None) \<in> set (fst (run_script env s)) \<Longrightarrow>
       (ChromiumLaunch, None) \<in> set (fst (run_script env s))"
    "(ChromiumLaunch, None) \<in> set (fst (run_script env s)) \<Longrightarrow>
       (PlaywrightStart, None) \<in> set (fst (run_script env s))"
    by blast+
qed

text \<open>
  C5, as the code has it. A file that does not compile acquires and releases nothing. In
  every run of \<^verbatim>\<open>run_test\<close>, however its \<^verbatim>\<open>try\<close> block ended, the \<^verbatim>\<open>finally\<close> block
  issues its release calls after all other calls, in the order context, browser, session,
  each at most once and only for a resource that was acquired, and it ends with the first
  release call that raises: that call is the last call of the run and its exception
  leaves \<^verbatim>\<open>run_test\<close>. So when the three release calls return, each acquired resource is
  released exactly once; when \<^verbatim>\<open>context.close()\<close> raises, nothing is released and
  browser and session get no release call; when \<^verbatim>\<open>browser.close()\<close> raises, the session
  gets no release call; when \<^verbatim>\<open>pw.stop()\<close> raises, every release call was issued and
  the session is the one resource not released.
\<close>

theorem teardown_releases_in_order:
  "(let tr = fst (run_script env s); ex = snd (run_script env s) in
   release_entries tr = release_run env (due_closes tr)
   \<and> closes tr = take (length (closes tr)) (due_closes tr)
   \<and> list_all (\<lambda>x. is_close_call (fst x))
        (dropWhile (\<lambda>x. \<not> is_close_call (fst x)) tr)
   \<and> (\<forall>c f. (c, Some f) \<in> set (release_entries tr) \<longrightarrow>
        last tr = (c, Some f) \<and> ex = Some (External f))
   \<and> (context_close_r env = None \<and> browser_close_r env = None \<and> stop_r env = None \<longrightarrow>
        closes tr = due_closes tr
        \<and> released tr = due_closes tr)
   \<and> (context_close_r env = None \<and> browser_close_r env = None \<longrightarrow>
        closes tr = due_closes tr)
   \<and> ((NewContext, None) \<in> set tr \<and> context_close_r env = Some f \<longrightarrow>
        closes tr = [ContextClose]
        \<and> released tr = []
        \<and> due_closes tr = [ContextClose, BrowserClose, PlaywrightStop]
        \<and> ex = Some (External f))
   \<and> ((ChromiumLaunch, None) \<in> set tr \<and> context_close_r env = None
        \<and> browser_close_r env = Some f \<longrightarrow>
        closes tr = butlast (due_closes tr)
        \<and> released tr = butlast (closes tr)
        \<and> last (due_closes tr) = PlaywrightStop
        \<and> ex = Some (External f))
   \<and> ((PlaywrightStart, None) \<in> set tr \<and> context_close_r env = None
        \<and> browser_close_r env = None \<and> stop_r env = Some f \<longrightarrow>
        closes tr = due_closes tr
        \<and> released tr = butlast (due_closes tr)
        \<and> ex = Some (External f)))"
proof -
  let ?tr = "fst (run_script env s)"
  let ?ex = "snd (run_script env s)"
  note r = run_script_release [where env = env and s = s]
  have e: "release_entries ?tr = release_run env (due_closes ?tr)"
    by (rule r(1))
  have chain: "(NewContext, None) \<in> set ?tr \<Longrightarrow> (ChromiumLaunch, None) \<in> set ?tr"
    "(ChromiumLaunch, None) \<in> set ?tr \<Longrightarrow> (PlaywrightStart, None) \<in> set ?tr"
    by (rule r(4), assumption) (rule r(5), assumption)
  have last_raise: "\<And>c f. (c, Some f) \<in> set (release_entries ?tr) \<Longrightarrow>
      last ?tr = (c, Some f) \<and> ?ex = Some (External f)"
    by (rule r(3))
  have c1: "release_entries ?tr = release_run env (due_closes ?tr)"
    by (rule e)
  have c2: "closes ?tr = take (length (closes ?tr)) (due_closes ?tr)"
    using release_run_length [of env "due_closes ?tr"]
    by (simp add: closes_as_entries e release_run_fst min_def)
  have c3: "list_all (\<lambda>x. is_close_call (fst x))
        (dropWhile (\<lambda>x. \<not> is_close_call (fst x)) ?tr)"
    by (rule r(2))
  have c4: "(\<forall>c f. (c, Some f) \<in> set (release_entries ?tr) \<longrightarrow>
        last ?tr = (c, Some f) \<and> ?ex = Some (External f))"
    using last_raise by blast
  have c5: "(context_close_r env = None \<and> browser_close_r env = None \<and> stop_r env = None \<longrightarrow>
        closes ?tr = due_closes ?tr
        \<and> released ?tr = due_closes ?tr)"
    by (simp add: closes_as_entries released_as_entries e release_run_all_return o_def)
  have c6: "(context_close_r env = None \<and> browser_close_r env = None \<longrightarrow>
        closes ?tr = due_closes ?tr)"
    using chain
    by (auto simp: closes_as_entries e due_closes_def release_result_def)
  have c7: "((NewContext, None) \<in> set ?tr \<and> context_close_r env = Some f \<longrightarrow>
        closes ?tr = [ContextClose]
        \<and> released ?tr = []
        \<and> due_closes ?tr = [ContextClose, BrowserClose, PlaywrightStop]
        \<and> ?ex = Some (External f))"
  proof
    assume h: "(NewContext, None) \<in> set ?tr \<and> context_close_r env = Some f"
    with chain have re: "release_entries ?tr = [(ContextClose, Some f)]"
      and due: "due_closes ?tr = [ContextClose, BrowserClose, PlaywrightStop]"
      by (simp_all add: e due_closes_def release_result_def)
    from last_raise [of ContextClose f] re have "?ex = Some (External f)"
      by simp
    with re due show "closes ?tr = [ContextClose]
        \<and> released ?tr = []
        \<and> due_closes ?tr = [ContextClose, BrowserClose, PlaywrightStop]
        \<and> ?ex = Some (External f)"
      by (simp add: closes_as_entries released_as_entries)
  qed
  have c8: "((ChromiumLaunch, None) \<in> set ?tr \<and> context_close_r env = None
        \<and> browser_close_r env = Some f \<longrightarrow>
        closes ?tr = butlast (due_closes ?tr)
        \<and> released ?tr = butlast (closes ?tr)
        \<and> last (due_closes ?tr) = PlaywrightStop
        \<and> ?ex = Some (External f))"
  proof
    assume h: "(ChromiumLaunch, None) \<in> set ?tr \<and> context_close_r env = None
        \<and> browser_close_r env = Some f"
    with chain have due: "due_closes ?tr =
        (if (NewContext, None) \<in> set ?tr then [ContextClose] else [])
        @ [BrowserClose, PlaywrightStop]"
      by (simp add: due_closes_def)
    from h have re: "release_entries ?tr =
        (if (NewContext, None) \<in> set ?tr then [(ContextClose, None)] else [])
        @ [(BrowserClose, Some f)]"
      by (simp add: e due release_result_def)
    then have "(BrowserClose, Some f) \<in> set (release_entries ?tr)"
      by simp
    from last_raise [OF this] have "?ex = Some (External f)"
      by simp
    with re due show "closes ?tr = butlast (due_closes ?tr)
        \<and> released ?tr = butlast (closes ?tr)
        \<and> last (due_closes ?tr) = PlaywrightStop
        \<and> ?ex = Some (External f)"
      by (simp add: closes_as_entries released_as_entries)
  qed
  have c9: "((PlaywrightStart, None) \<in> set ?tr \<and> context_close_r env = None
        \<and> browser_close_r env = None \<and> stop_r env = Some f \<longrightarrow>
        closes ?tr = due_closes ?tr
        \<and> released ?tr = butlast (due_closes ?tr)
        \<and> ?ex = Some (External f))"
  proof
    assume h: "(PlaywrightStart, None) \<in> set ?tr \<and> context_close_r env = None
        \<and> browser_close_r env = None \<and> stop_r env = Some f"
    then have due: "due_closes ?tr =
        (if (NewContext, None) \<in> set ?tr then [ContextClose] else [])
        @ (if (ChromiumLaunch, None) \<in> set ?tr then [BrowserClose] else [])
        @ [PlaywrightStop]"
      by (simp add: due_closes_def)
    from h have re: "release_entries ?tr =
        (if (NewContext, None) \<in> set ?tr then [(ContextClose, None)] else [])
        @ (if (ChromiumLaunch, None) \<in> set ?tr then [(BrowserClose, None)] else [])
        @ [(PlaywrightStop, Some f)]"
      by (simp add: e due release_result_def)
    then have "(PlaywrightStop, Some f) \<in> set (release_entries ?tr)"
      by simp
    from last_raise [OF this] have "?ex = Some (External f)"
      by simp
    with re due show "closes ?tr = due_closes ?tr
        \<and> released ?tr = butlast (due_closes ?tr)
        \<and> ?ex = Some (External f)"
      by (simp add: closes_as_entries released_as_entries butlast_append)
  qed
  from c1 c2 c3 c4 c5 c6 c7 c8 c9 show ?thesis
    unfolding Let_def by (intro conjI)
qed

lemma env_context_close_fails_facts [simp]:
  "boot_ok (env_context_close_fails f)"
  "boot_trace (env_context_close_fails f) = boot_trace env_ok"
  "teardown (env_context_close_fails f) all_set =
     ([(ContextClose, Some f)], Some (External f))"
  "goto_r (env_context_close_fails f) j = None" "wait_r (env_context_close_fails f) j = None"
  "click_r (env_context_close_fails f) j = None"
  "visible_r (env_context_close_fails f) j = None"
  "sleep_r (env_context_close_fails f) j = None"
  by (simp_all add: boot_ok_def boot_trace_def teardown_def env_context_close_fails_def
      env_ok_def load_states_def swallow_api_error_def all_set_def)

lemma env_browser_close_fails_facts [simp]:
  "boot_ok (env_browser_close_fails f)"
  "boot_trace (env_browser_close_fails f) = boot_trace env_ok"
  "teardown (env_browser_close_fails f) all_set =
     ([(ContextClose, None), (BrowserClose, Some f)], Some (External f))"
  "goto_r (env_browser_close_fails f) j = None" "wait_r (env_browser_close_fails f) j = None"
  "click_r (env_browser_close_fails f) j = None"
  "visible_r (env_browser_close_fails f) j = None"
  "sleep_r (env_browser_close_fails f) j = None"
  by (simp_all add: boot_ok_def boot_trace_def teardown_def env_browser_close_fails_def
      env_ok_def load_states_def swallow_api_error_def all_set_def)

lemma env_stop_fails_facts [simp]:
  "boot_ok (env_stop_fails f)"
  "boot_trace (env_stop_fails f) = boot_trace env_ok"
  "teardown (env_stop_fails f) all_set =
     ([(ContextClose, None), (BrowserClose, None), (PlaywrightStop, Some f)],
      Some (External f))"
  "goto_r (env_stop_fails f) j = None" "wait_r (env_stop_fails f) j = None"
  "click_r (env_stop_fails f) j = None"
  "visible_r (env_stop_fails f) j = None"
  "sleep_r (env_stop_fails f) j = None"
  by (simp_all add: boot_ok_def boot_trace_def teardown_def env_stop_fails_def
      env_ok_def load_states_def swallow_api_error_def all_set_def)

theorem teardown_releases_in_order_witness:
  "closes (fst (run_script env_ok TC010)) = [ContextClose, BrowserClose, PlaywrightStop]
   \<and> released (fst (run_script env_ok TC010)) = [ContextClose, BrowserClose, PlaywrightStop]
   \<and> closes (fst (run_script (env_context_close_fails PwError) TC016)) = [ContextClose]
   \<and> released (fst (run_script (env_context_close_fails PwError) TC016)) = []
   \<and> snd (run_script (env_context_close_fails PwError) TC016) = Some (External PwError)
   \<and> closes (fst (run_script (env_browser_close_fails PwError) TC015))
       = [ContextClose, BrowserClose]
   \<and> released (fst (run_script (env_browser_close_fails PwError) TC015)) = [ContextClose]
   \<and> snd (run_script (env_browser_close_fails PwError) TC015) = Some (External PwError)
   \<and> closes (fst (run_script (env_stop_fails PwError) TC017))
       = [ContextClose, BrowserClose, PlaywrightStop]
   \<and> released (fst (run_script (env_stop_fails PwError) TC017)) = [ContextClose, BrowserClose]
   \<and> snd (run_script (env_stop_fails PwError) TC017) = Some (External PwError)"
proof -
  note ev = run_script_def parses_def run_test_boot_ok script_names_def run_test_locals_def
    module_names_def due_closes_def
  have d0: "due_closes (fst (run_script env_ok TC010))
      = [ContextClose, BrowserClose, PlaywrightStop]"
    by (simp add: ev TC010_steps_def)
  have r0: "context_close_r env_ok = None \<and> browser_close_r env_ok = None
      \<and> stop_r env_ok = None"
    by (simp add: env_ok_def)
  have m1: "(NewContext, None) \<in> set (fst (run_script (env_context_close_fails PwError) TC016))"
    by (simp add: ev TC016_steps_def)
  have r1: "context_close_r (env_context_close_fails PwError) = Some PwError"
    by (simp add: env_context_close_fails_def)
  have m2: "(ChromiumLaunch, None)
      \<in> set (fst (run_script (env_browser_close_fails PwError) TC015))"
    and d2: "due_closes (fst (run_script (env_browser_close_fails PwError) TC015))
      = [ContextClose, BrowserClose, PlaywrightStop]"
    by (simp_all add: ev TC015_steps_def)
  have r2: "context_close_r (env_browser_close_fails PwError) = None
      \<and> browser_close_r (env_browser_close_fails PwError) = Some PwError"
    by (simp add: env_browser_close_fails_def env_ok_def)
  have m3: "(PlaywrightStart, None) \<in> set (fst (run_script (env_stop_fails PwError) TC017))"
    and d3: "due_closes (fst (run_script (env_stop_fails PwError) TC017))
      = [ContextClose, BrowserClose, PlaywrightStop]"
    by (simp_all add: ev TC017_steps_def)
  have r3: "context_close_r (env_stop_fails PwError) = None
      \<and> browser_close_r (env_stop_fails PwError) = None
      \<and> stop_r (env_stop_fails PwError) = Some PwError"
    by (simp add: env_stop_fails_def env_ok_def)
  show ?thesis
    using teardown_releases_in_order [of env_ok TC010 PwError]
      teardown_releases_in_order [of "env_context_close_fails PwError" TC016 PwError]
      teardown_releases_in_order [of "env_browser_close_fails PwError" TC015 PwError]
      teardown_releases_in_order [of "env_stop_fails PwError" TC017 PwError]
      d0 r0 m1 r1 m2 d2 r2 m3 d3 r3
    by (simp add: Let_def)
qed

text \<open>
  The claim as the specification words it (each resource is closed if and only if it was
  created) fails on \<^verbatim>\<open>TC010\<close> when \<^verbatim>\<open>context.close()\<close> raises: the browser and the
  session were acquired, and neither \<^verbatim>\<open>browser.close()\<close> nor \<^verbatim>\<open>pw.stop()\<close> is called.
\<close>

theorem context_close_failure_leaks_browser:
  "(PlaywrightStart, None) \<in> set (fst (run_script (env_context_close_fails PwError) TC010))
   \<and> (ChromiumLaunch, None) \<in> set (fst (run_script (env_context_close_fails PwError) TC010))
   \<and> closes (fst (run_script (env_context_close_fails PwError) TC010)) = [ContextClose]
   \<and> snd (run_script (env_context_close_fails PwError) TC010) = Some (External PwError)"
  by (simp add: run_script_def parses_def run_test_boot_ok TC010_steps_def script_names_def
      run_test_locals_def module_names_def closes_def is_close_call_def)

section \<open>Runs of candidate locators\<close>

lemma candidates_all_ok:
  "(\<And>k. k < length cands \<Longrightarrow> wait_r env (i + k) = None \<and> click_r env (i + k) = None) \<Longrightarrow>
   exec_body env names i (candidate_steps cands g t) = (clicks_done cands g t, None)"
proof (induction cands arbitrary: i)
  case Nil
  show ?case by (simp add: candidate_steps_def clicks_done_def)
next
  case (Cons c cands)
  from Cons.prems [of 0] have here: "wait_r env i = None" "click_r env i = None"
    by simp_all
  have "\<And>k. k < length cands \<Longrightarrow>
      wait_r env (Suc i + k) = None \<and> click_r env (Suc i + k) = None"
    using Cons.prems [of "Suc k" for k] by simp
  from Cons.IH [OF this] here show ?case
    by (simp add: candidate_steps_def clicks_done_def)
qed

text \<open>
  C6, as the code has it. The scripts have no executor for a list of fallback candidates:
  the candidates are click steps in a row, each a wait of the grace delay and a click
  with its timeout, run in source order. When every click returns, every candidate is
  clicked, the later ones after the successful earlier ones. When the candidates before
  the \<open>k\<close>-th returned and the \<open>k\<close>-th raises \<open>f\<close>, the later candidates are not tried and
  the result is the exception \<open>f\<close>, not a \<^verbatim>\<open>NotFound\<close> value.
\<close>

theorem candidates_clicked_until_failure:
  "((\<forall>k<length cands. wait_r env (i + k) = None \<and> click_r env (i + k) = None) \<longrightarrow>
      exec_body env names i (candidate_steps cands g t) = (clicks_done cands g t, None))
   \<and> (k < length cands
        \<and> (\<forall>j<k. wait_r env (i + j) = None \<and> click_r env (i + j) = None)
        \<and> wait_r env (i + k) = None \<and> click_r env (i + k) = Some f \<longrightarrow>
      exec_body env names i (candidate_steps cands g t) =
        (clicks_done (take k cands) g t
           @ [(WaitForTimeout g, None), (LocatorClick (cands ! k) t, Some f)],
         Some (External f)))"
proof (intro conjI impI)
  assume "\<forall>k<length cands. wait_r env (i + k) = None \<and> click_r env (i + k) = None"
  then show "exec_body env names i (candidate_steps cands g t) = (clicks_done cands g t, None)"
    by (intro candidates_all_ok) simp
next
  assume a: "k < length cands
        \<and> (\<forall>j<k. wait_r env (i + j) = None \<and> click_r env (i + j) = None)
        \<and> wait_r env (i + k) = None \<and> click_r env (i + k) = Some f"
  then have k: "k < length cands"
    by simp
  have split: "candidate_steps cands g t =
      candidate_steps (take k cands) g t @ Click (cands ! k) g t
        # candidate_steps (drop (Suc k) cands) g t"
    using id_take_nth_drop [OF k] by (metis candidate_steps_def list.simps(9) map_append)
  have pre: "exec_body env names i (candidate_steps (take k cands) g t) =
      (clicks_done (take k cands) g t, None)"
    using a by (intro candidates_all_ok) simp
  have len: "length (candidate_steps (take k cands) g t) = k"
    using k by (simp add: candidate_steps_def)
  show "exec_body env names i (candidate_steps cands g t) =
        (clicks_done (take k cands) g t
           @ [(WaitForTimeout g, None), (LocatorClick (cands ! k) t, Some f)],
         Some (External f))"
    using a by (subst split) (simp add: exec_body_append pre len)
qed

theorem candidates_clicked_until_failure_witness:
  "exec_body env_ok script_names 1 (take 2 (drop 1 (steps TC002))) =
     ([(WaitForTimeout 3000, None),
       (LocatorClick ''xpath=html/body/div/div/div[1]/div[2]/div[1]/div/div'' 5000, None),
       (WaitForTimeout 3000, None),
       (LocatorClick ''xpath=html/body/div[1]/div/div[1]/div[1]/canvas'' 5000, None)],
      None)
   \<and> exec_body (env_click_fails 1 PwTimeoutError) script_names 1 (take 2 (drop 1 (steps TC002))) =
     ([(WaitForTimeout 3000, None),
       (LocatorClick ''xpath=html/body/div/div/div[1]/div[2]/div[1]/div/div'' 5000,
        Some PwTimeoutError)],
      Some (External PwTimeoutError))"
proof -
  let ?cands = "[''xpath=html/body/div/div/div[1]/div[2]/div[1]/div/div'',
                 ''xpath=html/body/div[1]/div/div[1]/div[1]/canvas'']"
  have s: "take 2 (drop 1 (steps TC002)) = candidate_steps ?cands 3000 5000"
    by (simp add: TC002_steps_def candidate_steps_def)
  show ?thesis
    using candidates_clicked_until_failure [of ?cands env_ok 1 script_names 3000 5000 0]
      candidates_clicked_until_failure [of ?cands "env_click_fails 1 PwTimeoutError" 1
        script_names 3000 5000 0 PwTimeoutError]
    unfolding s by (simp add: clicks_done_def)
qed

text \<open>
  The claim as the specification words it fails on the last four click steps of
  \<^verbatim>\<open>TC013\<close> (lines 162 to 184), two selectors tried twice in turn. When every click
  returns, all four are clicked, none is skipped after the first success; when the first
  of them times out, the script ends with the \<^verbatim>\<open>TimeoutError\<close>.
\<close>

theorem candidates_not_short_circuited:
  "drop 18 (clicked (fst (run_script env_ok TC013))) =
     [''xpath=html/body/div/div/div[1]/div[2]/div[1]/div/div'',
      ''xpath=html/body/div[1]/div/div[1]/div[2]/div[1]/div/div'',
      ''xpath=html/body/div/div/div[1]/div[2]/div[1]/div/div'',
      ''xpath=html/body/div[1]/div/div[1]/div[2]/div[1]/div/div'']
   \<and> drop 18 (clicked (fst (run_script (env_click_fails 20 PwTimeoutError) TC013))) = []
   \<and> snd (run_script (env_click_fails 20 PwTimeoutError) TC013)
       = Some (External PwTimeoutError)"
  by (simp add: run_script_def parses_def run_test_boot_ok TC013_steps_def clicked_def)

section \<open>Where the assertions stand and what they ask for\<close>

lemma assert_steps_ok: "list_all assert_stmt_ok (steps s)"
  by (cases s)
    (simp_all add: assert_stmt_ok_def TC002_steps_def TC004_steps_def TC006_steps_def
      TC007_steps_def TC008_steps_def TC009_steps_def TC010_steps_def TC012_steps_def
      TC013_steps_def TC014_steps_def TC015_steps_def TC016_steps_def TC017_steps_def)

text \<open>
  C3, as the code has it. Eight scripts (\<^verbatim>\<open>TC004\<close>, \<^verbatim>\<open>TC006\<close>, \<^verbatim>\<open>TC007\<close>, \<^verbatim>\<open>TC010\<close>,
  \<^verbatim>\<open>TC014\<close>, \<^verbatim>\<open>TC015\<close>, \<^verbatim>\<open>TC016\<close>, \<^verbatim>\<open>TC017\<close>) hold exactly one assertion step, the
  other five hold none. Where there is one it asks for the visibility of a text selector
  within 3000 ms, names a failure message that starts with \<^verbatim>\<open>Test case failed: \<close>, and
  stands after every navigation and click of the script: what follows it is the closing
  \<^verbatim>\<open>await asyncio.sleep(5)\<close> and nothing else, but for \<^verbatim>\<open>TC007\<close> and \<^verbatim>\<open>TC014\<close>, where
  a line of backquotes stands between the two. Every script ends with that sleep.
\<close>

theorem assertion_only_at_the_end:
  "length (filter is_assert (steps s)) =
     (if s \<in> {TC004, TC006, TC007, TC010, TC014, TC015, TC016, TC017} then 1 else 0)
   \<and> after_assertion (steps s) =
     (if s \<in> {TC007, TC014} then [Fence, Sleep 5]
      else if s \<in> {TC004, TC006, TC010, TC015, TC016, TC017} then [Sleep 5]
      else [])
   \<and> assertion_last (steps s)
   \<and> list_all assert_stmt_ok (steps s)
   \<and> last (steps s) = Sleep 5"
proof (intro conjI)
  show "length (filter is_assert (steps s)) =
     (if s \<in> {TC004, TC006, TC007, TC010, TC014, TC015, TC016, TC017} then 1 else 0)"
    by (cases s)
      (simp_all add: TC002_steps_def TC004_steps_def TC006_steps_def
        TC007_steps_def TC008_steps_def TC009_steps_def TC010_steps_def TC012_steps_def
        TC013_steps_def TC014_steps_def TC015_steps_def TC016_steps_def TC017_steps_def)
  show "after_assertion (steps s) =
     (if s \<in> {TC007, TC014} then [Fence, Sleep 5]
      else if s \<in> {TC004, TC006, TC010, TC015, TC016, TC017} then [Sleep 5]
      else [])"
    by (cases s)
      (simp_all add: after_assertion_def TC002_steps_def TC004_steps_def TC006_steps_def
        TC007_steps_def TC008_steps_def TC009_steps_def TC010_steps_def TC012_steps_def
        TC013_steps_def TC014_steps_def TC015_steps_def TC016_steps_def TC017_steps_def)
  show "assertion_last (steps s)"
    by (cases s)
      (simp_all add: assertion_last_def TC002_steps_def TC004_steps_def TC006_steps_def
        TC007_steps_def TC008_steps_def TC009_steps_def TC010_steps_def TC012_steps_def
        TC013_steps_def TC014_steps_def TC015_steps_def TC016_steps_def TC017_steps_def)
  show "list_all assert_stmt_ok (steps s)"
    by (rule assert_steps_ok)
  show "last (steps s) = Sleep 5"
    by (cases s)
      (simp_all add: TC002_steps_def TC004_steps_def TC006_steps_def
        TC007_steps_def TC008_steps_def TC009_steps_def TC010_steps_def TC012_steps_def
        TC013_steps_def TC014_steps_def TC015_steps_def TC016_steps_def TC017_steps_def)
qed

text \<open>
  The claim as the specification words it (every script ends with an assertion step)
  fails on \<^verbatim>\<open>TC002\<close>, which holds no assertion step and ends with its sleep; so do
  \<^verbatim>\<open>TC012\<close> and \<^verbatim>\<open>TC013\<close>.
\<close>

theorem script_without_assertion:
  "filter is_assert (steps TC002) = [] \<and> last (steps TC002) = Sleep 5
   \<and> filter is_assert (steps TC012) = [] \<and> filter is_assert (steps TC013) = []"
  by (simp add: TC002_steps_def TC012_steps_def TC013_steps_def)





end
